theory Spec2Isabelle
  imports Main "HOL-Library.AList" "HOL-Library.Char_ord" "HOL-Library.List_Lexorder"
begin

section \<open>Python strings\<close>

text \<open>
  A Python \<open>str\<close> is a sequence of code points. It is modelled as a \<open>string\<close>
  (a list of \<open>char\<close>), one \<open>char\<close> per code point, for the code points
  U+0000 to U+00FF. The linear order on \<open>char\<close> and the lexicographic order on
  lists are the order Python's \<open>sorted\<close> uses on strings.
\<close>

definition code_point :: "char \<Rightarrow> nat" where
  "code_point c = of_char c"

text \<open>The regular-expression class \<open>[a-zA-Z0-9_]\<close>: three ranges and the underscore.\<close>

definition in_word_class :: "char \<Rightarrow> bool" where
  "in_word_class c \<longleftrightarrow>
     (97 \<le> code_point c \<and> code_point c \<le> 122) \<or>
     (65 \<le> code_point c \<and> code_point c \<le> 90) \<or>
     (48 \<le> code_point c \<and> code_point c \<le> 57) \<or>
     c = CHR ''_''"

text \<open>
  \<open>str.isspace\<close> and the class \<open>\s\<close> of a \<open>str\<close> pattern, on U+0000 to U+00FF:
  TAB to CR, FS to US, SPACE, NEL and NBSP.
\<close>

definition py_isspace :: "char \<Rightarrow> bool" where
  "py_isspace c \<longleftrightarrow>
     (9 \<le> code_point c \<and> code_point c \<le> 13) \<or>
     (28 \<le> code_point c \<and> code_point c \<le> 32) \<or>
     code_point c = 133 \<or> code_point c = 160"

definition strip :: "string \<Rightarrow> string" where
  "strip s = rev (dropWhile py_isspace (rev (dropWhile py_isspace s)))"

text \<open>\<open>str.lower\<close> on U+0000 to U+00FF: A to Z, and U+00C0 to U+00DE without U+00D7.\<close>

definition lower_char :: "char \<Rightarrow> char" where
  "lower_char c =
     (let n = code_point c in
      if (65 \<le> n \<and> n \<le> 90) \<or> (192 \<le> n \<and> n \<le> 222 \<and> n \<noteq> 215)
      then char_of (n + 32) else c)"

definition lower :: "string \<Rightarrow> string" where
  "lower s = map lower_char s"

fun starts_with :: "string \<Rightarrow> string \<Rightarrow> bool" where
  "starts_with s [] = True"
| "starts_with [] (p # ps) = False"
| "starts_with (c # cs) (p # ps) = (c = p \<and> starts_with cs ps)"

definition ends_with :: "string \<Rightarrow> string \<Rightarrow> bool" where
  "ends_with s p = starts_with (rev s) (rev p)"

text \<open>
  \<open>split_first old s\<close> cuts \<open>s\<close> around the leftmost occurrence of \<open>old\<close>;
  \<open>old in s\<close> and \<open>s.replace(old, new, 1)\<close> are read off it.
\<close>

fun split_first :: "string \<Rightarrow> string \<Rightarrow> (string \<times> string) option" where
  "split_first old [] = (if old = [] then Some ([], []) else None)"
| "split_first old (c # cs) =
     (if starts_with (c # cs) old then Some ([], drop (length old) (c # cs))
      else (case split_first old cs of
              None \<Rightarrow> None
            | Some (a, b) \<Rightarrow> Some (c # a, b)))"

definition contains :: "string \<Rightarrow> string \<Rightarrow> bool" where
  "contains s old = (split_first old s \<noteq> None)"

definition replace_first :: "string \<Rightarrow> string \<Rightarrow> string \<Rightarrow> string" where
  "replace_first old new s =
     (case split_first old s of None \<Rightarrow> s | Some (a, b) \<Rightarrow> a @ new @ b)"

text \<open>\<open>sep.join(xs)\<close>.\<close>

fun join :: "string \<Rightarrow> string list \<Rightarrow> string" where
  "join sep [] = []"
| "join sep [x] = x"
| "join sep (x # y # ys) = x @ sep @ join sep (y # ys)"

text \<open>\<open>str(n)\<close> of an integer: decimal digits, a minus sign when negative.\<close>

definition digit_char :: "nat \<Rightarrow> char" where
  "digit_char d = char_of (48 + d)"

function str_nat :: "nat \<Rightarrow> string" where
  "str_nat n = (if n < 10 then [digit_char n] else str_nat (n div 10) @ [digit_char (n mod 10)])"
  by pat_completeness auto
termination
  by (relation "measure id") auto

definition str_int :: "int \<Rightarrow> string" where
  "str_int i = (if i < 0 then CHR ''-'' # str_nat (nat (- i)) else str_nat (nat i))"

text \<open>
  \<open>re.sub(pattern, repl, s)\<close> for a pattern whose match at a position is decided by
  \<open>m\<close>: \<open>m s\<close> is what is left of \<open>s\<close> behind a match at its start. The scan goes
  left to right and takes up behind each match. Every pattern of the program matches
  at least one character; a match that consumed nothing is not taken.
\<close>

function re_sub :: "(string \<Rightarrow> string option) \<Rightarrow> string \<Rightarrow> string \<Rightarrow> string" where
  "re_sub m repl [] = []"
| "re_sub m repl (c # cs) =
     (case m (c # cs) of
        None \<Rightarrow> c # re_sub m repl cs
      | Some rest \<Rightarrow>
          if length rest < length (c # cs) then repl @ re_sub m repl rest
          else c # re_sub m repl cs)"
  by pat_completeness auto
termination
  by (relation "measure (\<lambda>(m, repl, s). length s)") auto

text \<open>Truthiness of an optional string: \<open>None\<close> and \<open>""\<close> are false.\<close>

fun truthy :: "string option \<Rightarrow> bool" where
  "truthy None = False"
| "truthy (Some s) = (s \<noteq> [])"

section \<open>app.py: the project name\<close>

text \<open>
  \<^verbatim>\<open>re.sub(r"[^a-zA-Z0-9_]", "_", name)\<close>: the negated class matches every single
  character outside the class (line breaks too), and each match becomes one underscore.
\<close>

definition sanitize_music_name :: "string \<Rightarrow> string" where
  "sanitize_music_name name = map (\<lambda>c. if in_word_class c then c else CHR ''_'') name"

text \<open>\<^verbatim>\<open>music_name or "untitled"\<close>.\<close>

definition name_or_untitled :: "string option \<Rightarrow> string" where
  "name_or_untitled music_name = (if truthy music_name then the music_name else ''untitled'')"

section \<open>Files and directories\<close>

text \<open>
  Paths are written relative to the directory that holds \<^verbatim>\<open>app.py\<close> and
  \<^verbatim>\<open>patch_byteplus.py\<close>. A regular file holds its raw characters; directories
  are listed by path; \<open>denied\<close> lists the paths that the process may not open (and
  the directories in which it may not create a file).
\<close>

datatype error =
    FileNotFoundError | IsADirectoryError | NotADirectoryError | FileExistsError
  | PermissionError | SameFileError | AttributeError | TypeError | ValueError
  | OtherError string

record filesystem =
  files :: "(string \<times> string) list"
  dirs :: "string list"
  denied :: "string list"

definition LF :: char where "LF = CHR 0x0A"
definition CR :: char where "CR = CHR 0x0D"

definition isfile :: "filesystem \<Rightarrow> string \<Rightarrow> bool" where
  "isfile fs p = (map_of (files fs) p \<noteq> None)"

definition isdir :: "filesystem \<Rightarrow> string \<Rightarrow> bool" where
  "isdir fs p = (p \<in> set (dirs fs))"

definition path_exists :: "filesystem \<Rightarrow> string \<Rightarrow> bool" where
  "path_exists fs p = (isfile fs p \<or> isdir fs p)"

text \<open>\<open>os.path.join(a, b)\<close> of \<open>posixpath\<close>.\<close>

definition path_join :: "string \<Rightarrow> string \<Rightarrow> string" where
  "path_join a b =
     (if starts_with b ''/'' then b
      else if a = [] \<or> ends_with a ''/'' then a @ b
      else a @ ''/'' @ b)"

text \<open>
  Reading in text mode (\<^verbatim>\<open>open(p, "r")\<close>, universal newlines): \<open>CR LF\<close> and a
  lone \<open>CR\<close> arrive as \<open>LF\<close>. The flag says that the character before was a \<open>CR\<close>.
\<close>

fun newlines_from :: "bool \<Rightarrow> string \<Rightarrow> string" where
  "newlines_from after_cr [] = []"
| "newlines_from after_cr (c # cs) =
     (if c = CR then LF # newlines_from True cs
      else if c = LF \<and> after_cr then newlines_from False cs
      else c # newlines_from False cs)"

definition universal_newlines :: "string \<Rightarrow> string" where
  "universal_newlines raw = newlines_from False raw"

definition read_text :: "filesystem \<Rightarrow> string \<Rightarrow> error + string" where
  "read_text fs p =
     (case map_of (files fs) p of
        Some raw \<Rightarrow>
          if p \<in> set (denied fs) then Inl PermissionError else Inr (universal_newlines raw)
      | None \<Rightarrow> if isdir fs p then Inl IsADirectoryError else Inl FileNotFoundError)"

text \<open>\<open>os.path.dirname\<close> and \<open>os.path.basename\<close> of \<open>posixpath\<close>.\<close>

fun find_last :: "char \<Rightarrow> string \<Rightarrow> nat \<Rightarrow> int \<Rightarrow> int" where
  "find_last c [] i found = found"
| "find_last c (x # xs) i found = find_last c xs (Suc i) (if x = c then int i else found)"

definition rfind :: "string \<Rightarrow> char \<Rightarrow> int" where
  "rfind s c = find_last c s 0 (- 1)"

definition dirname :: "string \<Rightarrow> string" where
  "dirname p =
     (let head = take (nat (rfind p CHR ''/'' + 1)) p in
      if head \<noteq> [] \<and> list_ex (\<lambda>c. c \<noteq> CHR ''/'') head
      then rev (dropWhile (\<lambda>c. c = CHR ''/'') (rev head))
      else head)"

definition basename :: "string \<Rightarrow> string" where
  "basename p = drop (nat (rfind p CHR ''/'' + 1)) p"

text \<open>
  Opening \<open>p\<close> for writing and storing \<open>raw\<close> in it. A directory at \<open>p\<close>, a missing
  parent directory, a regular file where the parent directory should be, and a path
  that may not be opened each raise; a parent that is \<open>""\<close> is the working directory.
\<close>

definition store_file :: "string \<Rightarrow> string \<Rightarrow> filesystem \<Rightarrow> error + filesystem" where
  "store_file p raw fs =
     (if p = [] then Inl FileNotFoundError
      else if isdir fs p then Inl IsADirectoryError
      else if isfile fs p then
        (if p \<in> set (denied fs) then Inl PermissionError
         else Inr (fs\<lparr>files := AList.update p raw (files fs)\<rparr>))
      else if dirname p \<noteq> [] \<and> isfile fs (dirname p) then Inl NotADirectoryError
      else if dirname p \<noteq> [] \<and> \<not> isdir fs (dirname p) then Inl FileNotFoundError
      else if dirname p \<in> set (denied fs) \<or> p \<in> set (denied fs) then Inl PermissionError
      else Inr (fs\<lparr>files := AList.update p raw (files fs)\<rparr>))"

text \<open>
  Writing in text mode (\<^verbatim>\<open>open(p, "w")\<close>) on a POSIX host, where the line separator
  is \<open>LF\<close>: the characters are stored as they are. The program is started from a
  macOS launcher (\<^verbatim>\<open>AutoMV_UI.command\<close>).
\<close>

definition write_text :: "string \<Rightarrow> string \<Rightarrow> filesystem \<Rightarrow> error + filesystem" where
  "write_text p s fs = store_file p s fs"

definition raw_content :: "filesystem \<Rightarrow> string \<Rightarrow> string option" where
  "raw_content fs p = map_of (files fs) p"

text \<open>\<open>os.remove\<close>.\<close>

definition os_remove :: "string \<Rightarrow> filesystem \<Rightarrow> error + filesystem" where
  "os_remove p fs =
     (if isfile fs p then Inr (fs\<lparr>files := AList.delete p (files fs)\<rparr>)
      else if isdir fs p then Inl IsADirectoryError
      else Inl FileNotFoundError)"

text \<open>
  \<open>os.makedirs(p, exist_ok=True)\<close> for a path \<open>parent/leaf\<close> below the repository:
  the missing directories are created, and a regular file in the way is an error.
\<close>

definition add_dir :: "string \<Rightarrow> filesystem \<Rightarrow> filesystem" where
  "add_dir p fs = (if isdir fs p then fs else fs\<lparr>dirs := dirs fs @ [p]\<rparr>)"

definition makedirs :: "string list \<Rightarrow> string \<Rightarrow> filesystem \<Rightarrow> error + filesystem" where
  "makedirs ancestors p fs =
     (if isfile fs p then Inl FileExistsError
      else if list_ex (isfile fs) ancestors then Inl NotADirectoryError
      else Inr (add_dir p (fold add_dir ancestors fs)))"

text \<open>
  \<open>shutil.copy2(src, dst)\<close>: a destination that is a directory stands for the file of
  the source's name in it; the raw content is copied.
\<close>

definition copy2 :: "string \<Rightarrow> string \<Rightarrow> filesystem \<Rightarrow> error + filesystem" where
  "copy2 src dst fs =
     (let target = (if isdir fs dst then path_join dst (basename src) else dst) in
      case map_of (files fs) src of
        None \<Rightarrow> if isdir fs src then Inl IsADirectoryError else Inl FileNotFoundError
      | Some raw \<Rightarrow>
          if src = target then Inl SameFileError
          else if src \<in> set (denied fs) then Inl PermissionError
          else store_file target raw fs)"

text \<open>\<open>os.path.splitext\<close> of \<open>posixpath\<close>; \<open>rfind\<close> is \<open>-1\<close> when nothing is found.\<close>

definition splitext :: "string \<Rightarrow> string \<times> string" where
  "splitext p =
     (let sepIndex = rfind p CHR ''/'';
          dotIndex = rfind p CHR ''.''
      in if dotIndex > sepIndex \<and>
            list_ex (\<lambda>c. c \<noteq> CHR ''.'')
              (take (nat (dotIndex - (sepIndex + 1))) (drop (nat (sepIndex + 1)) p))
         then (take (nat dotIndex) p, drop (nat dotIndex) p)
         else (p, []))"

section \<open>app.py: settings\<close>

definition AUTOMV_DIR :: string where
  "AUTOMV_DIR = ''AutoMV_repo''"

definition RESULT_DIR :: string where
  "RESULT_DIR = path_join AUTOMV_DIR ''result''"

definition API_KEYS :: "(string \<times> string) list" where
  "API_KEYS =
    [(''GEMINI_API_KEY'', ''Gemini API Key (Google)''),
     (''DOUBAO_API_KEY'', ''Ark API Key (BytePlus or Volcengine)''),
     (''ALIYUN_OSS_ACCESS_KEY_ID'', ''Aliyun OSS Access Key ID''),
     (''ALIYUN_OSS_ACCESS_KEY_SECRET'', ''Aliyun OSS Access Key Secret''),
     (''ALIYUN_OSS_BUCKET_NAME'', ''Aliyun OSS Bucket Name''),
     (''HUOSHAN_ACCESS_KEY'', ''Huoshan Access Key (China only, for lip-sync)''),
     (''HUOSHAN_SECRET_KEY'', ''Huoshan Secret Key (China only, for lip-sync)'')]"

definition MODEL_SETTINGS :: "(string \<times> string \<times> string) list" where
  "MODEL_SETTINGS =
    [(''GPU_ID'', ''GPU Device ID'', ''0''),
     (''WHISPER_MODEL'', ''Whisper Model'', ''openai/whisper-large-v2''),
     (''QWEN_OMNI_MODEL'', ''Qwen Omni Model'', ''Qwen/Qwen2.5-Omni-7B''),
     (''MODEL_SEEDREAM'', ''Seedream Model ID'', ''seedream-4-0-250828''),
     (''MODEL_SEEDANCE'', ''Seedance Model ID'', ''seedance-1-0-pro-250528''),
     (''MODEL_SEED_LLM'', ''Seed LLM Model ID'', ''seed-1.6-250615'')]"

text \<open>
  The settings file \<^verbatim>\<open>AutoMV_repo/.env\<close> is read and written through the
  python-dotenv library only (\<open>dotenv_values\<close>, \<open>set_key\<close>). It is kept as the
  bindings stored in it, in file order, and \<open>None\<close> when the file does not exist; a
  key written without a value is bound to \<open>None\<close>.
\<close>

type_synonym env_file = "(string \<times> string option) list option"

type_synonym env_dict = "(string \<times> string option) list"

text \<open>
  What the program takes from its host. The environment \<open>os.environ\<close>. The child
  processes, which are opaque: started with its arguments and environment on a file
  system, a child prints lines, leaves a file system, and ends with a return code, or
  the launch or the reading of its output raises. And the reading of python-dotenv: the
  dictionary that \<open>dotenv_values\<close> returns for the stored bindings, with the values
  unquoted and each \<^verbatim>\<open>${NAME}\<close> in them expanded.
\<close>

record proc_result =
  out_lines :: "string list"
  fs_after :: filesystem
  ending :: "error + int"

record host =
  os_environ :: "(string \<times> string) list"
  popen :: "string list \<Rightarrow> env_dict \<Rightarrow> filesystem \<Rightarrow> proc_result"
  dotenv_values :: "env_dict \<Rightarrow> env_dict"

definition load_env :: "host \<Rightarrow> env_file \<Rightarrow> env_dict" where
  "load_env h ef = (case ef of Some bindings \<Rightarrow> dotenv_values h bindings | None \<Rightarrow> [])"

text \<open>\<open>env.get(k)\<close>: the value, or \<open>None\<close>; \<open>env.get(k, d)\<close>: the value, or \<open>d\<close>.\<close>

definition env_get :: "env_dict \<Rightarrow> string \<Rightarrow> string option" where
  "env_get env k = (case map_of env k of Some v \<Rightarrow> v | None \<Rightarrow> None)"

definition env_get_default :: "env_dict \<Rightarrow> string \<Rightarrow> string \<Rightarrow> string option" where
  "env_get_default env k d = (case map_of env k of Some v \<Rightarrow> v | None \<Rightarrow> Some d)"

text \<open>\<open>set_key(ENV_PATH, key, value)\<close>: the binding is replaced in place, or added last.\<close>

definition set_key :: "string \<Rightarrow> string \<Rightarrow> env_dict \<Rightarrow> env_dict" where
  "set_key k v bindings = AList.update k (Some v) bindings"

text \<open>\<open>str(x)\<close> of an optional string, as an f-string prints it.\<close>

definition str_opt :: "string option \<Rightarrow> string" where
  "str_opt v = (case v of Some s \<Rightarrow> s | None \<Rightarrow> ''None'')"

definition save_env_settings ::
  "host \<Rightarrow> string option \<Rightarrow> string option list \<Rightarrow> env_file \<Rightarrow> string \<times> env_file" where
  "save_env_settings h provider vals ef =
     (let all_keys = map fst API_KEYS @ map fst MODEL_SETTINGS;
          b0 = (case ef of Some bindings \<Rightarrow> bindings | None \<Rightarrow> []);
          b1 = set_key ''ARK_PROVIDER''
                 (if truthy provider then strip (the provider) else ''byteplus'') b0;
          b2 = fold (\<lambda>(key, val) b.
                       if truthy val \<and> strip (the val) \<noteq> [] then set_key key (strip (the val)) b
                       else b)
                 (zip all_keys vals) b1;
          env = load_env h (Some b2);
          configured = filter (\<lambda>(k, label). truthy (env_get env k)) API_KEYS;
          missing = map snd (filter (\<lambda>(k, label). \<not> truthy (env_get env k)) API_KEYS);
          prov = env_get_default env ''ARK_PROVIDER'' ''byteplus'';
          status0 = ''Provider: '' @ str_opt prov @ ''\<newline>'' @
                    ''Configured: '' @ str_nat (length configured) @ ''/'' @
                    str_nat (length API_KEYS) @ '' API keys'';
          status1 = (if missing \<noteq> [] then status0 @ ''\<newline>Missing: '' @ join '', '' missing
                     else status0 @ ''\<newline>All API keys are set.'');
          status2 = (if prov = Some ''byteplus''
                     then status1 @ ''\<newline>\<newline>Note: Lip-sync (Jimeng) requires Volcengine (China). Set to 'None' if using BytePlus.''
                     else status1)
      in (status2, Some b2))"

section \<open>app.py: the stage-2 driver\<close>

definition dq :: char where "dq = CHR 0x22"

definition build_gen_script :: "string \<Rightarrow> string \<Rightarrow> string \<Rightarrow> string" where
  "build_gen_script music_name lip_sync resolution =
     (let lines0 = [''from video_generate.video_generate_pipeline import full_video_gen'',
                    ''from config import Config''];
          lines1 =
            (if lip_sync = ''Jimeng (fast)'' then
               lines0 @
               [''from generate_lip_video.gen_lip_sycn_video_jimeng import gen_lip_sync_video_jimeng'',
                ''gen_lip_sync_video_jimeng('' @ [dq] @ music_name @ [dq] @ '', config=Config)'']
             else if lip_sync = ''Wan2.2 (slow, cheap)'' then
               lines0 @
               [''from generate_lip_video.gen_lip_sycn_video import gen_lip_sync_video'',
                ''gen_lip_sync_video('' @ [dq] @ music_name @ [dq] @ '')'']
             else lines0);
          res = (if resolution = ''480p'' then ''480p'' else ''720p'');
          lines2 = lines1 @
            [''full_video_gen('' @ [dq] @ music_name @ [dq] @ '', resolution='' @ [dq] @ res @ [dq] @
             '', config=Config)'']
      in join ''\<newline>'' lines2 @ ''\<newline>'')"

section \<open>app.py: the pipeline orchestrator\<close>

text \<open>
  A run of the generator \<open>generate_music_video\<close>, read to its end by its caller, is the
  list of what it did in order (each \<open>yield\<close>, each effect on the host, and each
  return code it read from \<open>proc.returncode\<close>), the file system it leaves, and the
  exception that ended it, if one did.
\<close>

datatype event =
    Yield string
  | MakeDirs string
  | CopyFile string string
  | WriteFile string string
  | Popen "string list"
  | ExitCode "string list" int
  | RemoveFile string

record run =
  events :: "event list"
  final_fs :: filesystem
  raised :: "error option"

text \<open>\<^verbatim>\<open>for line in proc.stdout: log += line; yield log\<close>.\<close>

fun stream_lines :: "string \<Rightarrow> string list \<Rightarrow> string \<times> event list" where
  "stream_lines log [] = (log, [])"
| "stream_lines log (l # ls) =
     (case stream_lines (log @ l) ls of (log', evs) \<Rightarrow> (log', Yield (log @ l) # evs))"

text \<open>
  A match of \<^verbatim>\<open>music_name\s*=\s*"[^"]*"\<close> at the start of \<open>s\<close>. Both \<open>\s*\<close> and
  \<open>[^"]*\<close> are followed by a character outside their class, so the longest run is the
  only one that can match.
\<close>

definition match_music_name :: "string \<Rightarrow> string option" where
  "match_music_name s =
     (if starts_with s ''music_name'' then
        (case dropWhile py_isspace (drop 10 s) of
           [] \<Rightarrow> None
         | e # r2 \<Rightarrow>
             if e = CHR ''='' then
               (case dropWhile py_isspace r2 of
                  [] \<Rightarrow> None
                | q # r4 \<Rightarrow>
                    if q = dq then
                      (case dropWhile (\<lambda>c. c \<noteq> dq) r4 of
                         [] \<Rightarrow> None
                       | q' # r5 \<Rightarrow> Some r5)
                    else None)
             else None)
      else None)"

definition config_path :: string where
  "config_path = path_join AUTOMV_DIR ''config.py''"

definition gen_script_path :: string where
  "gen_script_path = path_join AUTOMV_DIR ''_ui_generate.py''"

definition stage1_cmd :: "string list" where
  "stage1_cmd = [''python'', ''-m'', ''picture_generate.main'']"

definition stage2_cmd :: "string list" where
  "stage2_cmd = [''python'', ''_ui_generate.py'']"

definition stage1_failed_line :: "int \<Rightarrow> string" where
  "stage1_failed_line rc = ''\<newline>Stage 1 failed with exit code '' @ str_int rc @ ''\<newline>''"

definition stage2_failed_line :: "int \<Rightarrow> string" where
  "stage2_failed_line rc = ''\<newline>Stage 2 failed with exit code '' @ str_int rc @ ''\<newline>''"

text \<open>The \<open>try\<close> block from stage 2 on, entered when stage 1 returned 0.\<close>

definition stage2 ::
  "host \<Rightarrow> env_dict \<Rightarrow> string \<Rightarrow> string \<Rightarrow> string \<Rightarrow> string \<Rightarrow> string \<Rightarrow> filesystem \<Rightarrow> run" where
  "stage2 h run_env music_name lip_sync resolution project_dir log0 fs0 =
     (let log1 = log0 @ ''--- Stage 2: Video Generation ---\<newline>'';
          gen_script = build_gen_script music_name lip_sync resolution
      in case write_text gen_script_path gen_script fs0 of
           Inl e \<Rightarrow> \<lparr>events = [], final_fs = fs0, raised = Some e\<rparr>
         | Inr fs1 \<Rightarrow>
      (let log2 = log1 @ ''Generating video clips and assembling final MV...\<newline>'';
           ev1 = [WriteFile gen_script_path gen_script, Yield log2, Popen stage2_cmd];
           p = popen h stage2_cmd run_env fs1;
           streamed = stream_lines log2 (out_lines p);
           log3 = fst streamed;
           fs2 = fs_after p
       in case ending p of
            Inl e \<Rightarrow> \<lparr>events = ev1 @ snd streamed, final_fs = fs2, raised = Some e\<rparr>
          | Inr rc \<Rightarrow>
              if rc \<noteq> 0 then
                \<lparr>events = ev1 @ snd streamed @
                           [ExitCode stage2_cmd rc, Yield (log3 @ stage2_failed_line rc)],
                 final_fs = fs2, raised = None\<rparr>
              else if path_exists fs2 gen_script_path then
                (case os_remove gen_script_path fs2 of
                   Inl e \<Rightarrow> \<lparr>events = ev1 @ snd streamed @ [ExitCode stage2_cmd rc],
                             final_fs = fs2, raised = Some e\<rparr>
                 | Inr fs3 \<Rightarrow>
                     let final_video = path_join project_dir (''mv_'' @ music_name @ ''.mp4'');
                         log4 = (if path_exists fs3 final_video
                                 then log3 @ ''\<newline>Done! Final video: '' @ final_video @ ''\<newline>''
                                 else log3 @ ''\<newline>Pipeline finished but final video not found. Check logs above.\<newline>'')
                     in \<lparr>events = ev1 @ snd streamed @
                                  [ExitCode stage2_cmd rc, RemoveFile gen_script_path, Yield log4],
                         final_fs = fs3, raised = None\<rparr>)
              else
                (let final_video = path_join project_dir (''mv_'' @ music_name @ ''.mp4'');
                     log4 = (if path_exists fs2 final_video
                             then log3 @ ''\<newline>Done! Final video: '' @ final_video @ ''\<newline>''
                             else log3 @ ''\<newline>Pipeline finished but final video not found. Check logs above.\<newline>'')
                 in \<lparr>events = ev1 @ snd streamed @ [ExitCode stage2_cmd rc, Yield log4],
                     final_fs = fs2, raised = None\<rparr>)))"

text \<open>The whole \<open>try\<close> block: stage 1, and stage 2 behind it.\<close>

definition pipeline_body ::
  "host \<Rightarrow> env_dict \<Rightarrow> string \<Rightarrow> string \<Rightarrow> string \<Rightarrow> string \<Rightarrow> string \<Rightarrow> filesystem \<Rightarrow> run" where
  "pipeline_body h run_env music_name lip_sync resolution project_dir log0 fs0 =
     (let log1 = log0 @ ''--- Stage 1: Picture Generation ---\<newline>'' @
                 ''Running SongFormer analysis + image generation...\<newline>'';
          ev0 = [Yield log1, Popen stage1_cmd];
          p = popen h stage1_cmd run_env fs0;
          streamed = stream_lines log1 (out_lines p);
          log2 = fst streamed;
          fs1 = fs_after p
      in case ending p of
           Inl e \<Rightarrow> \<lparr>events = ev0 @ snd streamed, final_fs = fs1, raised = Some e\<rparr>
         | Inr rc \<Rightarrow>
             if rc \<noteq> 0 then
               \<lparr>events = ev0 @ snd streamed @
                          [ExitCode stage1_cmd rc, Yield (log2 @ stage1_failed_line rc)],
                final_fs = fs1, raised = None\<rparr>
             else
               (let log3 = log2 @ ''\<newline>Stage 1 complete.\<newline>\<newline>'';
                    r = stage2 h run_env music_name lip_sync resolution project_dir log3 fs1
                in r\<lparr>events := ev0 @ snd streamed @ [ExitCode stage1_cmd rc, Yield log3] @
                                 events r\<rparr>))"

definition err_no_audio :: string where
  "err_no_audio = ''Error: Please upload a music file.''"

definition err_bad_name :: string where
  "err_bad_name = ''Error: Please provide a valid music name (letters, numbers, underscores).''"

definition err_bad_ext :: string where
  "err_bad_ext = ''Error: Only .mp3 and .wav files are supported.''"

definition lip_sync_warning :: string where
  "lip_sync_warning =
     ''Warning: Lip-sync (Jimeng) requires Volcengine (China) credentials.\<newline>Switching lip-sync to 'None' for BytePlus provider.\<newline>\<newline>''"

text \<open>\<^verbatim>\<open>{**os.environ, **env}\<close>, then \<open>PYTHONPATH\<close>.\<close>

definition make_run_env :: "(string \<times> string) list \<Rightarrow> env_dict \<Rightarrow> env_dict" where
  "make_run_env environ env =
     AList.update ''PYTHONPATH'' (Some AUTOMV_DIR)
       (fold (\<lambda>(k, v). AList.update k v) env (map (\<lambda>(k, v). (k, Some v)) environ))"

text \<open>
  Lines 146 to 233: the configuration file is read and patched, the \<open>try\<close> block
  runs, and the \<open>finally\<close> block writes back what was read. An exception of the
  patching write ends the run before the \<open>try\<close> block; an exception of the
  restoring write is the one the run ends with.
\<close>

definition patched_scope ::
  "host \<Rightarrow> env_dict \<Rightarrow> string \<Rightarrow> string \<Rightarrow> string \<Rightarrow> string \<Rightarrow> string \<Rightarrow> filesystem \<Rightarrow> run" where
  "patched_scope h run_env music_name lip_sync resolution project_dir log fs2 =
     (case read_text fs2 config_path of
        Inl e \<Rightarrow> \<lparr>events = [], final_fs = fs2, raised = Some e\<rparr>
      | Inr config_content \<Rightarrow>
          (let original_config = config_content;
               patched = re_sub match_music_name (''music_name = '' @ [dq] @ music_name @ [dq])
                           config_content
           in case write_text config_path patched fs2 of
                Inl e \<Rightarrow> \<lparr>events = [], final_fs = fs2, raised = Some e\<rparr>
              | Inr fs3 \<Rightarrow>
                  (let body = pipeline_body h run_env music_name lip_sync resolution
                                project_dir log fs3
                   in case write_text config_path original_config (final_fs body) of
                        Inl e \<Rightarrow>
                          \<lparr>events = [WriteFile config_path patched] @ events body,
                           final_fs = final_fs body, raised = Some e\<rparr>
                      | Inr fs4 \<Rightarrow>
                          \<lparr>events = [WriteFile config_path patched] @ events body @
                                    [WriteFile config_path original_config],
                           final_fs = fs4, raised = raised body\<rparr>)))"

text \<open>Lines 123 to 140 and on: the project directory, the extension, the copy, the log.\<close>

definition prepare_and_run ::
  "host \<Rightarrow> env_dict \<Rightarrow> string option \<Rightarrow> string \<Rightarrow> string \<Rightarrow> string \<Rightarrow> string \<Rightarrow> filesystem \<Rightarrow> run" where
  "prepare_and_run h env provider audio music_name lip_sync resolution fs =
     (let project_dir = path_join RESULT_DIR music_name in
      case makedirs [AUTOMV_DIR, RESULT_DIR] project_dir fs of
        Inl e \<Rightarrow> \<lparr>events = [], final_fs = fs, raised = Some e\<rparr>
      | Inr fs1 \<Rightarrow>
          (let ext = lower (snd (splitext audio)) in
           if ext \<noteq> ''.mp3'' \<and> ext \<noteq> ''.wav'' then
             \<lparr>events = [MakeDirs project_dir, Yield err_bad_ext], final_fs = fs1, raised = None\<rparr>
           else
             (let dest_audio = path_join project_dir (music_name @ ''.mp3'') in
              case copy2 audio dest_audio fs1 of
                Inl e \<Rightarrow> \<lparr>events = [MakeDirs project_dir], final_fs = fs1, raised = Some e\<rparr>
              | Inr fs2 \<Rightarrow>
                  (let log = ''=== AutoMV Pipeline ===\<newline>'' @
                             ''Provider: '' @ str_opt provider @ ''\<newline>'' @
                             ''Music: '' @ music_name @ ''\<newline>'' @
                             ''Lip-sync: '' @ lip_sync @ ''\<newline>'' @
                             ''Resolution: '' @ resolution @ ''\<newline>'' @
                             ''Audio copied to: '' @ dest_audio @ ''\<newline>\<newline>'';
                       run_env = make_run_env (os_environ h) env;
                       r = patched_scope h run_env music_name lip_sync resolution project_dir log fs2
                   in r\<lparr>events := [MakeDirs project_dir, CopyFile audio dest_audio, Yield log] @
                                    events r\<rparr>))))"

definition generate_music_video ::
  "host \<Rightarrow> env_file \<Rightarrow> filesystem \<Rightarrow> string option \<Rightarrow> string option \<Rightarrow> string \<Rightarrow> string \<Rightarrow> run" where
  "generate_music_video h ef fs audio_file music_name_in lip_sync_in resolution =
     (if \<not> truthy audio_file then \<lparr>events = [Yield err_no_audio], final_fs = fs, raised = None\<rparr>
      else
      let music_name = sanitize_music_name (name_or_untitled music_name_in) in
      if music_name = [] then \<lparr>events = [Yield err_bad_name], final_fs = fs, raised = None\<rparr>
      else
      let env = load_env h ef;
          missing = map snd (filter (\<lambda>(k, label). \<not> truthy (env_get env k)) (take 2 API_KEYS))
      in
      if missing \<noteq> [] then
        \<lparr>events = [Yield (''Error: Required API keys not configured: '' @ join '', '' missing @
                            ''\<newline>Please go to the Settings tab.'')],
         final_fs = fs, raised = None\<rparr>
      else
      let provider = env_get_default env ''ARK_PROVIDER'' ''byteplus'';
          downgrade = (provider = Some ''byteplus'' \<and> lip_sync_in \<noteq> ''None'');
          ev_warn = (if downgrade then [Yield lip_sync_warning] else []);
          lip_sync = (if downgrade then ''None'' else lip_sync_in);
          r = prepare_and_run h env provider (the audio_file) music_name lip_sync resolution fs
      in r\<lparr>events := ev_warn @ events r\<rparr>)"

text \<open>The commands of the child processes a run launched, in order.\<close>

fun launches :: "event list \<Rightarrow> string list list" where
  "launches [] = []"
| "launches (Popen c # es) = c # launches es"
| "launches (e # es) = launches es"

section \<open>app.py: the project store\<close>

text \<open>
  A decoded JSON document. The floating-point numbers are values of a type \<open>'f\<close> that
  is left open. A decoded object keeps its members in document order, one per key.
\<close>

datatype 'f json =
    JNull | JBool bool | JInt int | JFloat 'f | JStr string
  | JArr "'f json list" | JObj "(string \<times> 'f json) list"

text \<open>
  What \<open>load_project\<close> takes from Python and its standard library: \<open>json.load\<close> on
  the text of a file, \<open>format(v, "")\<close> and \<open>format(v, ".1f")\<close> as an f-string field
  applies them, and the truth value of a decoded value.
\<close>

record 'f pylib =
  json_load :: "string \<Rightarrow> error + 'f json"
  py_str :: "'f json \<Rightarrow> string"
  fmt_1f :: "'f json \<Rightarrow> error + string"
  py_bool :: "'f json \<Rightarrow> bool"

text \<open>\<open>d.get(k, default)\<close> printed into an f-string, where the default is a string.\<close>

definition get_str :: "'f pylib \<Rightarrow> (string \<times> 'f json) list \<Rightarrow> string \<Rightarrow> string \<Rightarrow> string" where
  "get_str lib d k dflt = (case map_of d k of Some v \<Rightarrow> py_str lib v | None \<Rightarrow> dflt)"

text \<open>\<^verbatim>\<open>{seg.get(k, 0):.1f}\<close>: the default \<open>0\<close> prints as \<open>0.0\<close>.\<close>

definition get_1f :: "'f pylib \<Rightarrow> (string \<times> 'f json) list \<Rightarrow> string \<Rightarrow> error + string" where
  "get_1f lib d k = (case map_of d k of Some v \<Rightarrow> fmt_1f lib v | None \<Rightarrow> Inr ''0.0'')"

text \<open>One row of the storyboard; \<open>seg.get\<close> needs a dictionary.\<close>

definition format_segment :: "'f pylib \<Rightarrow> 'f json \<Rightarrow> error + string" where
  "format_segment lib seg =
     (case seg of
        JObj d \<Rightarrow>
          (case get_1f lib d ''start'' of
             Inl e \<Rightarrow> Inl e
           | Inr start \<Rightarrow>
               (case get_1f lib d ''end'' of
                  Inl e \<Rightarrow> Inl e
                | Inr end' \<Rightarrow>
                    Inr (''**#'' @ get_str lib d ''number'' ''?'' @ ''** ['' @ start @ ''s - '' @
                         end' @ ''s] '' @
                         ''('' @ get_str lib d ''label'' ''unknown'' @ '')\<newline>'' @
                         ''Lyrics: '' @ get_str lib d ''text'' ''N/A'' @ ''\<newline>'' @
                         ''Scene: '' @ get_str lib d ''story'' ''N/A'' @ ''\<newline>'')))
      | _ \<Rightarrow> Inl AttributeError)"

text \<open>The rows of a loop that appends one formatted row per element and stops at an error.\<close>

fun format_rows :: "('a \<Rightarrow> error + string) \<Rightarrow> 'a list \<Rightarrow> error + string list" where
  "format_rows f [] = Inr []"
| "format_rows f (x # xs) =
     (case f x of
        Inl e \<Rightarrow> Inl e
      | Inr row \<Rightarrow> (case format_rows f xs of Inl e \<Rightarrow> Inl e | Inr rows \<Rightarrow> Inr (row # rows)))"

text \<open>\<^verbatim>\<open>for seg in story_data\<close>: what iterating over a decoded value gives.\<close>

definition iterate :: "'f json \<Rightarrow> error + 'f json list" where
  "iterate v =
     (case v of
        JArr xs \<Rightarrow> Inr xs
      | JObj d \<Rightarrow> Inr (map (\<lambda>(k, x). JStr k) d)
      | JStr t \<Rightarrow> Inr (map (\<lambda>c. JStr [c]) t)
      | _ \<Rightarrow> Inl TypeError)"

definition load_storyboard :: "'f pylib \<Rightarrow> filesystem \<Rightarrow> string \<Rightarrow> error + string" where
  "load_storyboard lib fs project_dir =
     (let story_path = path_join project_dir ''story.json'' in
      if path_exists fs story_path then
        (case read_text fs story_path of
           Inl e \<Rightarrow> Inl e
         | Inr text \<Rightarrow>
             (case json_load lib text of
                Inl e \<Rightarrow> Inl e
              | Inr story_data \<Rightarrow>
                  (case iterate story_data of
                     Inl e \<Rightarrow> Inl e
                   | Inr segs \<Rightarrow>
                       (case format_rows (format_segment lib) segs of
                          Inl e \<Rightarrow> Inl e
                        | Inr rows \<Rightarrow>
                            Inr (if rows \<noteq> [] then join ''\<newline>---\<newline>'' rows
                                 else ''Empty storyboard.'')))))
      else Inr ''No storyboard found.'')"

text \<open>
  The dash in a character's heading is U+2014, outside the characters of the model;
  it stands here as the three bytes of its UTF-8 form.
\<close>

definition em_dash :: string where
  "em_dash = [char_of (226 :: nat), char_of (128 :: nat), char_of (148 :: nat)]"

definition format_character :: "'f pylib \<Rightarrow> string \<times> 'f json \<Rightarrow> error + string" where
  "format_character lib entry =
     (case entry of
        (name, JObj info) \<Rightarrow>
          Inr (''**'' @ get_str lib info ''name'' name @ ''** '' @ em_dash @ '' '' @
               get_str lib info ''gender'' ''?'' @ '', '' @ get_str lib info ''age'' ''?'' @
               ''\<newline>'' @
               ''Appearance: '' @ get_str lib info ''appearance'' ''N/A'' @ ''\<newline>'' @
               ''Role: '' @ get_str lib info ''role'' ''N/A'' @ ''\<newline>'')
      | _ \<Rightarrow> Inl AttributeError)"

definition load_characters :: "'f pylib \<Rightarrow> filesystem \<Rightarrow> string \<Rightarrow> error + string" where
  "load_characters lib fs project_dir =
     (let label_path = path_join project_dir ''label.json'' in
      if path_exists fs label_path then
        (case read_text fs label_path of
           Inl e \<Rightarrow> Inl e
         | Inr text \<Rightarrow>
             (case json_load lib text of
                Inl e \<Rightarrow> Inl e
              | Inr (JObj label_data) \<Rightarrow>
                  (let char_lines0 =
                         (case map_of label_data ''style_requirement'' of
                            None \<Rightarrow> []
                          | Some style \<Rightarrow>
                              if py_bool lib style
                              then [''**Style:** '' @ py_str lib style @ ''\<newline>'']
                              else [])
                   in case map_of label_data ''character_depiction'' of
                        None \<Rightarrow>
                          Inr (if char_lines0 \<noteq> [] then join ''\<newline>---\<newline>'' char_lines0
                               else ''No characters defined.'')
                      | Some (JObj chars) \<Rightarrow>
                          (case format_rows (format_character lib) chars of
                             Inl e \<Rightarrow> Inl e
                           | Inr rows \<Rightarrow>
                               Inr (if char_lines0 @ rows \<noteq> []
                                    then join ''\<newline>---\<newline>'' (char_lines0 @ rows)
                                    else ''No characters defined.''))
                      | Some _ \<Rightarrow> Inl AttributeError)
              | Inr _ \<Rightarrow> Inl AttributeError))
      else Inr ''No character data found.'')"

text \<open>\<open>os.listdir\<close>: the names directly below a directory.\<close>

definition child_name :: "string \<Rightarrow> string \<Rightarrow> string list" where
  "child_name p q =
     (if starts_with q (p @ ''/'') then
        (let n = drop (length p + 1) q in if n \<noteq> [] \<and> CHR ''/'' \<notin> set n then [n] else [])
      else [])"

definition listdir :: "filesystem \<Rightarrow> string \<Rightarrow> error + string list" where
  "listdir fs p =
     (if isdir fs p then
        (if p \<in> set (denied fs) then Inl PermissionError
         else Inr (remdups (concat (map (child_name p) (map fst (files fs) @ dirs fs)))))
      else if isfile fs p then Inl NotADirectoryError
      else Inl FileNotFoundError)"

definition is_image :: "string \<Rightarrow> bool" where
  "is_image img_file =
     (ends_with (lower img_file) ''.jpg'' \<or> ends_with (lower img_file) ''.jpeg'' \<or>
      ends_with (lower img_file) ''.png'')"

text \<open>The keyframes of one entry of the picture directory.\<close>

definition segment_keyframes :: "filesystem \<Rightarrow> string \<Rightarrow> string \<Rightarrow> error + string list" where
  "segment_keyframes fs picture_dir seg_dir =
     (let seg_path = path_join picture_dir seg_dir in
      if isdir fs seg_path then
        (case listdir fs seg_path of
           Inl e \<Rightarrow> Inl e
         | Inr names \<Rightarrow> Inr (map (path_join seg_path) (filter is_image (sort names))))
      else Inr [])"

fun collect :: "('a \<Rightarrow> error + 'b list) \<Rightarrow> 'a list \<Rightarrow> error + 'b list" where
  "collect f [] = Inr []"
| "collect f (x # xs) =
     (case f x of
        Inl e \<Rightarrow> Inl e
      | Inr ys \<Rightarrow> (case collect f xs of Inl e \<Rightarrow> Inl e | Inr zs \<Rightarrow> Inr (ys @ zs)))"

definition load_keyframes :: "filesystem \<Rightarrow> string \<Rightarrow> error + string list" where
  "load_keyframes fs project_dir =
     (let picture_dir = path_join project_dir ''picture'' in
      if path_exists fs picture_dir then
        (case listdir fs picture_dir of
           Inl e \<Rightarrow> Inl e
         | Inr names \<Rightarrow> collect (segment_keyframes fs picture_dir) (sort names))
      else Inr [])"

type_synonym project_view = "string option \<times> string \<times> string \<times> string list \<times> string option"

definition load_project :: "'f pylib \<Rightarrow> filesystem \<Rightarrow> string option \<Rightarrow> error + project_view" where
  "load_project lib fs project_name =
     (if \<not> truthy project_name then
        Inr (None, ''No project selected'', ''No project selected'', [], None)
      else
        (let name = the project_name;
             project_dir = path_join RESULT_DIR name;
             video_path = path_join project_dir (''mv_'' @ name @ ''.mp4'');
             video = (if path_exists fs video_path then Some video_path else None)
         in case load_storyboard lib fs project_dir of
              Inl e \<Rightarrow> Inl e
            | Inr storyboard \<Rightarrow>
                (case load_characters lib fs project_dir of
                   Inl e \<Rightarrow> Inl e
                 | Inr characters \<Rightarrow>
                     (case load_keyframes fs project_dir of
                        Inl e \<Rightarrow> Inl e
                      | Inr keyframes \<Rightarrow>
                          Inr (video, storyboard, characters, keyframes,
                               if truthy video then Some video_path else None)))))"

section \<open>patch\_byteplus.py\<close>

definition sq :: char where "sq = CHR 0x27"

definition REPO_DIR :: string where
  "REPO_DIR = ''AutoMV_repo''"

text \<open>
  A patch step leaves the lines it printed, the file system, and the value it returned
  or the exception it raised.
\<close>

datatype 'a exit = Returned 'a | Raised error | SystemExit int

record 'a patch_run =
  printed :: "string list"
  fs_left :: filesystem
  result :: "'a exit"

text \<open>The loop of \<open>patch_file\<close> over its replacements: the content, and the warnings.\<close>

fun apply_replacements ::
  "string \<Rightarrow> (string \<times> string) list \<Rightarrow> string \<Rightarrow> string \<times> string list" where
  "apply_replacements filepath [] content = (content, [])"
| "apply_replacements filepath ((old, new) # rs) content =
     (if \<not> contains content old then
        (case apply_replacements filepath rs content of
           (content', warns) \<Rightarrow>
             (content',
              (''  [WARN] Pattern not found in '' @ filepath @ '': '' @ take 60 old @ ''...'') # warns))
      else apply_replacements filepath rs (replace_first old new content))"

definition patch_file :: "string \<Rightarrow> (string \<times> string) list \<Rightarrow> string \<Rightarrow> filesystem \<Rightarrow> bool patch_run" where
  "patch_file filepath replacements marker fs =
     (let full_path = path_join REPO_DIR filepath in
      if \<not> path_exists fs full_path then
        \<lparr>printed = [''  [SKIP] '' @ filepath @ '' not found''], fs_left = fs, result = Returned False\<rparr>
      else
        (case read_text fs full_path of
           Inl e \<Rightarrow> \<lparr>printed = [], fs_left = fs, result = Raised e\<rparr>
         | Inr content \<Rightarrow>
             if marker \<noteq> [] \<and> contains content marker then
               \<lparr>printed = [''  [OK] '' @ filepath @ '' already patched''], fs_left = fs,
                result = Returned True\<rparr>
             else
               (let original = content;
                    applied = apply_replacements filepath replacements content
                in if fst applied = original then
                     \<lparr>printed = snd applied @ [''  [OK] '' @ filepath @ '' no changes needed''],
                      fs_left = fs, result = Returned True\<rparr>
                   else
                     (case write_text full_path (fst applied) fs of
                        Inl e \<Rightarrow> \<lparr>printed = snd applied, fs_left = fs, result = Raised e\<rparr>
                      | Inr fs' \<Rightarrow>
                          \<lparr>printed = snd applied @ [''  [PATCHED] '' @ filepath],
                           fs_left = fs', result = Returned True\<rparr>))))"

definition default_marker :: string where
  "default_marker = ''byteplussdkarkruntime''"

definition config_replacements :: "(string \<times> string) list" where
  "config_replacements =
    [(''    music_name = \"1\"'',
      ''    music_name = \"1\"\<newline>'' @
      ''\<newline>'' @
      ''    # BytePlus (international) vs Volcengine (China) configuration\<newline>'' @
      ''    ARK_PROVIDER = os.getenv('ARK_PROVIDER', 'byteplus')\<newline>'' @
      ''\<newline>'' @
      ''    @classmethod\<newline>'' @
      ''    def get_ark_base_url(cls):\<newline>'' @
      ''        if cls.ARK_PROVIDER == 'byteplus':\<newline>'' @
      ''            return \"https://ark.ap-southeast.bytepluses.com/api/v3\"\<newline>'' @
      ''        return \"https://ark.cn-beijing.volces.com/api/v3\"\<newline>'' @
      ''\<newline>'' @
      ''    @classmethod\<newline>'' @
      ''    def get_model_name(cls, model_short):\<newline>'' @
      ''        if cls.ARK_PROVIDER == 'byteplus':\<newline>'' @
      ''            return model_short\<newline>'' @
      ''        return f\"doubao-{model_short}\"\<newline>'' @
      ''\<newline>'' @
      ''    MODEL_SEEDREAM = os.getenv('MODEL_SEEDREAM', 'seedream-4-0-250828')\<newline>'' @
      ''    MODEL_SEEDANCE = os.getenv('MODEL_SEEDANCE', 'seedance-1-0-pro-250528')\<newline>'' @
      ''    MODEL_SEED_LLM = os.getenv('MODEL_SEED_LLM', 'seed-1.6-250615')\<newline>''),
     (''        if not cls.DOUBAO_API_KEY:\<newline>'' @
      ''            raise ValueError(\"OPENAI_API_KEY not found in .env\")'',
      ''        if not cls.DOUBAO_API_KEY:\<newline>'' @
      ''            raise ValueError(\"DOUBAO_API_KEY not found in .env\")'')]"

definition patch_config :: "filesystem \<Rightarrow> bool patch_run" where
  "patch_config fs =
     (let filepath = ''config.py'';
          full_path = path_join REPO_DIR filepath
      in case read_text fs full_path of
           Inl e \<Rightarrow> \<lparr>printed = [], fs_left = fs, result = Raised e\<rparr>
         | Inr content \<Rightarrow>
             if contains content ''ARK_PROVIDER'' then
               \<lparr>printed = [''  [OK] '' @ filepath @ '' already patched''], fs_left = fs,
                result = Returned True\<rparr>
             else patch_file filepath config_replacements default_marker fs)"

definition picture_replacements :: "(string \<times> string) list" where
  "picture_replacements =
    [(''from volcenginesdkarkruntime import Ark'',
      ''try:\<newline>'' @
      ''    from byteplussdkarkruntime import Ark\<newline>'' @
      ''except ImportError:\<newline>'' @
      ''    from volcenginesdkarkruntime import Ark''),
     (''client_doubao = Ark(\<newline>'' @
      ''    api_key=Config.DOUBAO_API_KEY\<newline>'' @
      '')'',
      ''client_doubao = Ark(\<newline>'' @
      ''    api_key=Config.DOUBAO_API_KEY,\<newline>'' @
      ''    base_url=Config.get_ark_base_url(),\<newline>'' @
      '')''),
     (''model=\"doubao-seedream-4-0-250828\",'',
      ''model=Config.get_model_name(Config.MODEL_SEEDREAM),''),
     (''model=\"doubao-seed-1.6-250615\",'',
      ''model=Config.get_model_name(Config.MODEL_SEED_LLM),'')]"

definition patch_picture :: "filesystem \<Rightarrow> bool patch_run" where
  "patch_picture fs = patch_file ''picture_generate/picture.py'' picture_replacements default_marker fs"

definition video_pipeline_replacements :: "(string \<times> string) list" where
  "video_pipeline_replacements =
    [(''from volcenginesdkarkruntime import Ark'',
      ''try:\<newline>'' @
      ''    from byteplussdkarkruntime import Ark\<newline>'' @
      ''except ImportError:\<newline>'' @
      ''    from volcenginesdkarkruntime import Ark''),
     (''def __init__(self, api_key: str, base_url: str = \"https://ark.cn-beijing.volces.com/api/v3\"):\<newline>'' @
      ''        self.client = Ark(base_url=base_url, api_key=api_key)'',
      ''def __init__(self, api_key: str, base_url: str = None):\<newline>'' @
      ''        if base_url is None:\<newline>'' @
      ''            base_url = Config.get_ark_base_url()\<newline>'' @
      ''        self.client = Ark(base_url=base_url, api_key=api_key)''),
     (''    model = \"doubao-seedance-1-0-pro-250528\"'',
      ''    model = config.get_model_name(config.MODEL_SEEDANCE)'')]"

definition patch_video_pipeline :: "filesystem \<Rightarrow> bool patch_run" where
  "patch_video_pipeline fs =
     patch_file ''video_generate/video_generate_pipeline.py'' video_pipeline_replacements
       default_marker fs"

definition call_gemini_replacements :: "(string \<times> string) list" where
  "call_gemini_replacements =
    [(''base_url=\"https://ark.cn-beijing.volces.com/api/v3\"'',
      ''base_url=Config.get_ark_base_url()''),
     (''model=\"doubao-seed-1.6-250615\",'',
      ''model=Config.get_model_name(Config.MODEL_SEED_LLM),'')]"

definition patch_call_gemini :: "filesystem \<Rightarrow> bool patch_run" where
  "patch_call_gemini fs =
     patch_file ''video_generate/call_gemini.py'' call_gemini_replacements ''get_ark_base_url'' fs"

text \<open>
  A match of
  \<^verbatim>\<open>    visual_service\.set_ak\('[^']+'\)\n    visual_service\.set_sk\('[^']+'\)\<close>
  at the start of \<open>s\<close>. Each \<open>[^']+\<close> is followed by a quote, so it can only match
  the whole run of characters up to the next quote, and that run must not be empty.
\<close>

definition quoted_arg :: "string \<Rightarrow> string option" where
  "quoted_arg s =
     (if takeWhile (\<lambda>c. c \<noteq> sq) s = [] then None
      else (case dropWhile (\<lambda>c. c \<noteq> sq) s of
              [] \<Rightarrow> None
            | q # rest \<Rightarrow> if starts_with rest '')'' then Some (drop 1 rest) else None))"

definition match_set_ak_sk :: "string \<Rightarrow> string option" where
  "match_set_ak_sk s =
     (let ak = ''    visual_service.set_ak('' @ [sq];
          sk = ''\<newline>    visual_service.set_sk('' @ [sq]
      in if starts_with s ak then
           (case quoted_arg (drop (length ak) s) of
              None \<Rightarrow> None
            | Some r \<Rightarrow>
                if starts_with r sk then quoted_arg (drop (length sk) r) else None)
         else None)"

definition lip_sync_replacement :: string where
  "lip_sync_replacement =
     ''    # Note: Jimeng lip-sync requires Volcengine (China) credentials.\<newline>'' @
     ''    # This feature is NOT available via BytePlus (international).\<newline>'' @
     ''    visual_service.set_ak(config.HUOSHAN_ACCESS_KEY)\<newline>'' @
     ''    visual_service.set_sk(config.HUOSHAN_SECRET_KEY)''"

definition patch_lip_sync :: "filesystem \<Rightarrow> bool patch_run" where
  "patch_lip_sync fs =
     (let filepath = ''generate_lip_video/gen_lip_sycn_video_jimeng.py'';
          full_path = path_join REPO_DIR filepath
      in if \<not> path_exists fs full_path then
           \<lparr>printed = [''  [SKIP] '' @ filepath @ '' not found''], fs_left = fs,
            result = Returned False\<rparr>
         else
           (case read_text fs full_path of
              Inl e \<Rightarrow> \<lparr>printed = [], fs_left = fs, result = Raised e\<rparr>
            | Inr content \<Rightarrow>
                if contains content ''config.HUOSHAN_ACCESS_KEY'' then
                  \<lparr>printed = [''  [OK] '' @ filepath @ '' already patched''], fs_left = fs,
                   result = Returned True\<rparr>
                else
                  (let new_content = re_sub match_set_ak_sk lip_sync_replacement content in
                   if new_content = content then
                     \<lparr>printed = [''  [WARN] Could not find set_ak/set_sk pattern in '' @ filepath],
                      fs_left = fs, result = Returned False\<rparr>
                   else
                     (case write_text full_path new_content fs of
                        Inl e \<Rightarrow> \<lparr>printed = [], fs_left = fs, result = Raised e\<rparr>
                      | Inr fs' \<Rightarrow>
                          \<lparr>printed = [''  [PATCHED] '' @ filepath], fs_left = fs',
                           result = Returned True\<rparr>))))"

text \<open>
  One statement of \<open>main\<close> after another: a step that raised ends the batch, and what
  an earlier step returned is dropped.
\<close>

definition and_then :: "'a patch_run \<Rightarrow> (filesystem \<Rightarrow> 'b patch_run) \<Rightarrow> 'b patch_run" where
  "and_then r step =
     (case result r of
        Returned x \<Rightarrow>
          (let r' = step (fs_left r) in r'\<lparr>printed := printed r @ printed r'\<rparr>)
      | Raised e \<Rightarrow> \<lparr>printed = printed r, fs_left = fs_left r, result = Raised e\<rparr>
      | SystemExit n \<Rightarrow> \<lparr>printed = printed r, fs_left = fs_left r, result = SystemExit n\<rparr>)"

definition say :: "string \<Rightarrow> filesystem \<Rightarrow> unit patch_run" where
  "say line fs = \<lparr>printed = [line], fs_left = fs, result = Returned ()\<rparr>"

definition main :: "filesystem \<Rightarrow> unit patch_run" where
  "main fs =
     (let banner = ''Applying BytePlus patches to AutoMV repo...'' in
      if \<not> path_exists fs REPO_DIR then
        \<lparr>printed = [banner, ''ERROR: AutoMV repo not found at '' @ REPO_DIR], fs_left = fs,
         result = SystemExit 1\<rparr>
      else
        and_then (and_then (and_then (and_then (and_then (and_then
          (say banner fs)
          patch_config)
          patch_picture)
          patch_video_pipeline)
          patch_call_gemini)
          patch_lip_sync)
          (say ''Done! BytePlus support patched successfully.''))"

section \<open>Notions used in the statements\<close>

text \<open>
  The target file of a patch step is there, may be read, and its content holds the
  string \<open>s\<close>: the marker of the step, or the text that a replacement looks for.
\<close>

definition file_holds :: "filesystem \<Rightarrow> string \<Rightarrow> string \<Rightarrow> bool" where
  "file_holds fs filepath s =
     (case raw_content fs (path_join REPO_DIR filepath) of
        Some raw \<Rightarrow> path_join REPO_DIR filepath \<notin> set (denied fs) \<and> contains raw s
      | None \<Rightarrow> False)"

text \<open>
  Two strings clash when an occurrence of one can share characters with an occurrence
  of the other: one holds the other, or an end of one is a start of the other.
\<close>

definition suffix_prefix :: "string \<Rightarrow> string \<Rightarrow> bool" where
  "suffix_prefix x y =
     list_ex (\<lambda>k. drop (length x - k) x = take k y) [1 ..< Suc (min (length x) (length y))]"

definition clash :: "string \<Rightarrow> string \<Rightarrow> bool" where
  "clash x y = (contains x y \<or> contains y x \<or> suffix_prefix x y \<or> suffix_prefix y x)"

section \<open>Sample inputs\<close>

text \<open>
  A host whose child processes print one line and return 1, and one whose return 0;
  both read the settings as they are stored.
\<close>

definition failing_host :: host where
  "failing_host =
     \<lparr>os_environ = [(''HOME'', ''/root'')],
      popen = (\<lambda>cmd env fs. \<lparr>out_lines = [''Traceback\<newline>''], fs_after = fs, ending = Inr 1\<rparr>),
      dotenv_values = (\<lambda>bindings. bindings)\<rparr>"

definition working_host :: host where
  "working_host =
     \<lparr>os_environ = [(''HOME'', ''/root'')],
      popen = (\<lambda>cmd env fs. \<lparr>out_lines = [''ok\<newline>''], fs_after = fs, ending = Inr 0\<rparr>),
      dotenv_values = (\<lambda>bindings. bindings)\<rparr>"

text \<open>Settings with both required keys, and no provider chosen.\<close>

definition sample_env :: env_file where
  "sample_env = Some [(''GEMINI_API_KEY'', Some ''g''), (''DOUBAO_API_KEY'', Some ''d'')]"

text \<open>A repository with its configuration file, and a song in two formats.\<close>

definition sample_fs :: filesystem where
  "sample_fs =
     \<lparr>files = [(''AutoMV_repo/config.py'', ''music_name = \"1\"'' @ [LF]),
               (''song.mp3'', ''ID3''), (''song.ogg'', ''OggS'')],
      dirs = [''AutoMV_repo''],
      denied = []\<rparr>"

text \<open>The same, with a configuration file whose line ends with CR LF.\<close>

definition crlf_fs :: filesystem where
  "crlf_fs =
     \<lparr>files = [(''AutoMV_repo/config.py'', ''music_name = \"1\"'' @ [CR, LF]),
               (''song.mp3'', ''ID3''), (''song.ogg'', ''OggS'')],
      dirs = [''AutoMV_repo''],
      denied = []\<rparr>"

text \<open>A repository directory with none of the five target files.\<close>

definition empty_repo :: filesystem where
  "empty_repo = \<lparr>files = [], dirs = [''AutoMV_repo''], denied = []\<rparr>"

text \<open>A repository with an unpatched \<open>picture.py\<close>.\<close>

definition small_pristine_repo :: filesystem where
  "small_pristine_repo =
     \<lparr>files = [(''AutoMV_repo/picture_generate/picture.py'',
                ''from volcenginesdkarkruntime import Ark\<newline>'' @
                ''model=\"doubao-seedream-4-0-250828\",\<newline>'')],
      dirs = [''AutoMV_repo'', ''AutoMV_repo/picture_generate''],
      denied = []\<rparr>"

text \<open>
  A repository whose \<open>picture.py\<close> names the image model twice and does not import
  the SDK.
\<close>

definition two_models_repo :: filesystem where
  "two_models_repo =
     \<lparr>files = [(''AutoMV_repo/picture_generate/picture.py'',
                ''model=\"doubao-seedream-4-0-250828\",\<newline>'' @
                ''model=\"doubao-seedream-4-0-250828\",\<newline>'')],
      dirs = [''AutoMV_repo'', ''AutoMV_repo/picture_generate''],
      denied = []\<rparr>"

text \<open>A repository whose five target files hold their markers.\<close>

definition marked_repo :: filesystem where
  "marked_repo =
     \<lparr>files =
        [(''AutoMV_repo/config.py'', ''    ARK_PROVIDER = os.getenv('ARK_PROVIDER', 'byteplus')\<newline>''),
         (''AutoMV_repo/picture_generate/picture.py'', ''    from byteplussdkarkruntime import Ark\<newline>''),
         (''AutoMV_repo/video_generate/video_generate_pipeline.py'',
          ''    from byteplussdkarkruntime import Ark\<newline>''),
         (''AutoMV_repo/video_generate/call_gemini.py'', ''base_url=Config.get_ark_base_url()\<newline>''),
         (''AutoMV_repo/generate_lip_video/gen_lip_sycn_video_jimeng.py'',
          ''    visual_service.set_ak(config.HUOSHAN_ACCESS_KEY)\<newline>'')],
      dirs = [''AutoMV_repo'', ''AutoMV_repo/picture_generate'', ''AutoMV_repo/video_generate'',
              ''AutoMV_repo/generate_lip_video''],
      denied = []\<rparr>"

text \<open>
  A project with a storyboard of two segments and no character sheet, and a library
  that decodes that storyboard, prints integers in decimal and knows no other number.
\<close>

definition sample_story :: "int json" where
  "sample_story =
     JArr [JObj [(''number'', JInt 1), (''start'', JInt 0), (''end'', JInt 12),
                 (''label'', JStr ''intro''), (''text'', JStr ''la la''),
                 (''story'', JStr ''A city at dawn.'')],
           JObj [(''number'', JInt 2), (''start'', JInt 12)]]"

definition sample_lib :: "int pylib" where
  "sample_lib =
     \<lparr>json_load = (\<lambda>t. if t = ''[two segments]'' then Inr sample_story else Inl ValueError),
      py_str = (\<lambda>v. case v of JInt i \<Rightarrow> str_int i | JStr t \<Rightarrow> t | _ \<Rightarrow> ''?''),
      fmt_1f = (\<lambda>v. case v of JInt i \<Rightarrow> Inr (str_int i @ ''.0'') | _ \<Rightarrow> Inl TypeError),
      py_bool = (\<lambda>v. True)\<rparr>"

definition project_fs :: filesystem where
  "project_fs =
     \<lparr>files = [(''AutoMV_repo/result/demo/story.json'', ''[two segments]''),
               (''AutoMV_repo/result/demo/picture/seg_1/b.PNG'', ''png''),
               (''AutoMV_repo/result/demo/picture/seg_1/a.jpg'', ''jpg''),
               (''AutoMV_repo/result/demo/picture/seg_1/notes.txt'', ''txt'')],
      dirs = [''AutoMV_repo'', ''AutoMV_repo/result'', ''AutoMV_repo/result/demo'',
              ''AutoMV_repo/result/demo/picture'', ''AutoMV_repo/result/demo/picture/seg_1''],
      denied = []\<rparr>"

text \<open>
  The same library reading a storyboard of two segments, the first with a \<open>start\<close>
  that is \<open>null\<close>; and a project whose \<open>picture\<close> is a regular file.
\<close>

definition null_start_lib :: "int pylib" where
  "null_start_lib =
     sample_lib\<lparr>json_load :=
       (\<lambda>t. Inr (JArr [JObj [(''number'', JInt 1), (''start'', JNull)], JObj [(''number'', JInt 2)]]))\<rparr>"

definition picture_file_fs :: filesystem where
  "picture_file_fs =
     \<lparr>files = [(''AutoMV_repo/result/demo/story.json'', ''[two segments]''),
               (''AutoMV_repo/result/demo/picture'', ''png'')],
      dirs = [''AutoMV_repo'', ''AutoMV_repo/result'', ''AutoMV_repo/result/demo''],
      denied = []\<rparr>"

section \<open>Properties of the project name\<close>

lemma word_class_all:
  "\<forall>c. in_word_class c \<longrightarrow>
     c \<in> set ''abcdefghijklmnopqrstuvwxyzABCDEFGHIJKLMNOPQRSTUVWXYZ0123456789_''"
  by code_simp

lemma word_class_underscore: "in_word_class CHR ''_''"
  by (simp add: in_word_class_def)

lemma sanitize_chars: "c \<in> set (sanitize_music_name name) \<Longrightarrow> in_word_class c"
  by (auto simp: sanitize_music_name_def word_class_underscore)

lemma sanitize_length: "length (sanitize_music_name name) = length name"
  by (simp add: sanitize_music_name_def)

lemma name_or_untitled_nonempty: "name_or_untitled m \<noteq> []"
  by (cases m) (auto simp: name_or_untitled_def)

lemma sanitized_nonempty: "sanitize_music_name (name_or_untitled m) \<noteq> []"
  using sanitize_length [of "name_or_untitled m"] name_or_untitled_nonempty [of m]
  by (metis length_0_conv)

text \<open>
  C7: for every string \<open>name\<close>, sanitizing twice gives what sanitizing once gives, and
  every character of the sanitized name is one of the letters \<open>a\<close> to \<open>z\<close> and \<open>A\<close> to
  \<open>Z\<close>, the digits, or the underscore.
\<close>

theorem sanitize_music_name_idempotent_charset:
  "sanitize_music_name (sanitize_music_name name) = sanitize_music_name name \<and>
   set (sanitize_music_name name) \<subseteq>
     set ''abcdefghijklmnopqrstuvwxyzABCDEFGHIJKLMNOPQRSTUVWXYZ0123456789_''"
proof
  show "sanitize_music_name (sanitize_music_name name) = sanitize_music_name name"
    by (simp add: sanitize_music_name_def word_class_underscore)
  show "set (sanitize_music_name name) \<subseteq>
     set ''abcdefghijklmnopqrstuvwxyzABCDEFGHIJKLMNOPQRSTUVWXYZ0123456789_''"
    using sanitize_chars word_class_all by blast
qed

theorem sanitize_music_name_idempotent_charset_witness:
  "sanitize_music_name (sanitize_music_name ''my song (v2).mp3'') = ''my_song__v2__mp3'' \<and>
   set ''my_song__v2__mp3'' \<subseteq>
     set ''abcdefghijklmnopqrstuvwxyzABCDEFGHIJKLMNOPQRSTUVWXYZ0123456789_''"
proof -
  have "sanitize_music_name ''my song (v2).mp3'' = ''my_song__v2__mp3''"
    by code_simp
  then show ?thesis
    using sanitize_music_name_idempotent_charset [of "''my song (v2).mp3''"] by simp
qed

section \<open>Properties of a run\<close>

lemma launches_append: "launches (xs @ ys) = launches xs @ launches ys"
  by (induction xs rule: launches.induct) auto

lemma stream_lines_fst: "fst (stream_lines log ls) = log @ concat ls"
  by (induction ls arbitrary: log) (simp_all add: case_prod_beta)

lemma stream_lines_yield:
  "e \<in> set (snd (stream_lines log ls)) \<Longrightarrow> \<exists>u. e = Yield (log @ u)"
proof (induction ls arbitrary: log)
  case Nil
  then show ?case by simp
next
  case (Cons l ls)
  show ?case
  proof (cases "e = Yield (log @ l)")
    case True
    then show ?thesis by blast
  next
    case False
    with Cons.prems have "e \<in> set (snd (stream_lines (log @ l) ls))"
      by (simp add: case_prod_beta)
    then obtain u where "e = Yield ((log @ l) @ u)"
      using Cons.IH by blast
    then show ?thesis by auto
  qed
qed

lemma stream_lines_launches: "launches (snd (stream_lines log ls)) = []"
  by (induction ls arbitrary: log) (simp_all add: case_prod_beta)

lemma stream_lines_no_write: "WriteFile p c \<notin> set (snd (stream_lines log ls))"
  using stream_lines_yield by blast

lemma cmds_differ: "stage1_cmd \<noteq> stage2_cmd"
  by (simp add: stage1_cmd_def stage2_cmd_def)

lemma paths_differ: "gen_script_path \<noteq> config_path"
  by (simp add: gen_script_path_def config_path_def path_join_def AUTOMV_DIR_def ends_with_def)

lemma stage2_yield:
  "Yield t \<in> set (events (stage2 h env n l r d log0 fs0)) \<Longrightarrow> \<exists>u. t = log0 @ u"
  by (auto simp: stage2_def Let_def stream_lines_fst split: sum.splits if_splits
      dest!: stream_lines_yield)

lemma stage2_exit:
  "ExitCode c rc \<in> set (events (stage2 h env n l r d log0 fs0)) \<Longrightarrow> c = stage2_cmd"
  by (auto simp: stage2_def Let_def split: sum.splits if_splits dest!: stream_lines_yield)

lemma stage2_write:
  "WriteFile p c \<in> set (events (stage2 h env n l r d log0 fs0)) \<Longrightarrow>
     p = gen_script_path \<and> c = build_gen_script n l r"
  by (auto simp: stage2_def Let_def split: sum.splits if_splits dest!: stream_lines_yield)


lemma body_yield:
  "Yield t \<in> set (events (pipeline_body h env n l r d log0 fs0)) \<Longrightarrow> \<exists>u. t = log0 @ u"
  by (auto simp: pipeline_body_def Let_def stream_lines_fst split: sum.splits if_splits
      dest!: stream_lines_yield stage2_yield)

lemma body_write:
  "WriteFile p c \<in> set (events (pipeline_body h env n l r d log0 fs0)) \<Longrightarrow>
     p = gen_script_path \<and> c = build_gen_script n l r"
  by (auto simp: pipeline_body_def Let_def split: sum.splits if_splits
      dest!: stream_lines_yield stage2_write)

text \<open>Stage 1 returned a code other than 0: what the try block did.\<close>

lemma body_stage1_failed:
  assumes "popen h stage1_cmd env fs0 = p" and "ending p = Inr rc" and "rc \<noteq> 0"
  shows "pipeline_body h env n l r d log0 fs0 =
     \<lparr>events =
        [Yield (log0 @ ''--- Stage 1: Picture Generation ---\<newline>'' @
                ''Running SongFormer analysis + image generation...\<newline>''),
         Popen stage1_cmd] @
        snd (stream_lines (log0 @ ''--- Stage 1: Picture Generation ---\<newline>'' @
                ''Running SongFormer analysis + image generation...\<newline>'') (out_lines p)) @
        [ExitCode stage1_cmd rc,
         Yield (fst (stream_lines (log0 @ ''--- Stage 1: Picture Generation ---\<newline>'' @
                ''Running SongFormer analysis + image generation...\<newline>'') (out_lines p)) @
                stage1_failed_line rc)],
      final_fs = fs_after p, raised = None\<rparr>"
  using assms by (simp add: pipeline_body_def Let_def)

lemma scope_stage1_failed:
  assumes "read_text fs2 config_path = Inr content"
    and "write_text config_path (re_sub match_music_name (''music_name = '' @ [dq] @ n @ [dq])
           content) fs2 = Inr fs3"
    and "popen h stage1_cmd env fs3 = p" and "ending p = Inr rc" and "rc \<noteq> 0"
  shows "\<exists>pre log.
     events (patched_scope h env n l r d log0 fs2) =
       pre @ [Popen stage1_cmd] @ snd (stream_lines log (out_lines p)) @
       [ExitCode stage1_cmd rc,
        Yield (log @ concat (out_lines p) @ stage1_failed_line rc)] @
       (case write_text config_path content (fs_after p) of
          Inl e \<Rightarrow> [] | Inr fs4 \<Rightarrow> [WriteFile config_path content]) \<and>
     launches pre = [] \<and> (\<forall>c. WriteFile gen_script_path c \<notin> set pre) \<and>
     (\<forall>t. Yield t \<in> set pre \<longrightarrow> (\<exists>u. t = log0 @ u))"
    and "final_fs (patched_scope h env n l r d log0 fs2) =
       (case write_text config_path content (fs_after p) of
          Inl e \<Rightarrow> fs_after p | Inr fs4 \<Rightarrow> fs4)"
    and "raised (patched_scope h env n l r d log0 fs2) =
       (case write_text config_path content (fs_after p) of
          Inl e \<Rightarrow> Some e | Inr fs4 \<Rightarrow> None)"
proof -
  let ?log1 = "log0 @ ''--- Stage 1: Picture Generation ---\<newline>'' @
                ''Running SongFormer analysis + image generation...\<newline>''"
  let ?patched = "re_sub match_music_name (''music_name = '' @ [dq] @ n @ [dq]) content"
  let ?pre = "[WriteFile config_path ?patched, Yield ?log1]"
  note body = body_stage1_failed [OF assms(3,4,5), of n l r d log0]
  have ev: "events (patched_scope h env n l r d log0 fs2) =
       ?pre @ [Popen stage1_cmd] @ snd (stream_lines ?log1 (out_lines p)) @
       [ExitCode stage1_cmd rc,
        Yield (?log1 @ concat (out_lines p) @ stage1_failed_line rc)] @
       (case write_text config_path content (fs_after p) of
          Inl e \<Rightarrow> [] | Inr fs4 \<Rightarrow> [WriteFile config_path content])"
    using assms(1,2) body
    by (simp add: patched_scope_def Let_def stream_lines_fst split: sum.splits)
  have "launches ?pre = []" by simp
  moreover have "\<forall>c. WriteFile gen_script_path c \<notin> set ?pre"
    using paths_differ by simp
  moreover have "\<forall>t. Yield t \<in> set ?pre \<longrightarrow> (\<exists>u. t = log0 @ u)" by simp
  ultimately show "\<exists>pre log.
     events (patched_scope h env n l r d log0 fs2) =
       pre @ [Popen stage1_cmd] @ snd (stream_lines log (out_lines p)) @
       [ExitCode stage1_cmd rc,
        Yield (log @ concat (out_lines p) @ stage1_failed_line rc)] @
       (case write_text config_path content (fs_after p) of
          Inl e \<Rightarrow> [] | Inr fs4 \<Rightarrow> [WriteFile config_path content]) \<and>
     launches pre = [] \<and> (\<forall>c. WriteFile gen_script_path c \<notin> set pre) \<and>
     (\<forall>t. Yield t \<in> set pre \<longrightarrow> (\<exists>u. t = log0 @ u))"
    using ev by blast
  show "final_fs (patched_scope h env n l r d log0 fs2) =
       (case write_text config_path content (fs_after p) of
          Inl e \<Rightarrow> fs_after p | Inr fs4 \<Rightarrow> fs4)"
    using assms(1,2) body by (simp add: patched_scope_def Let_def split: sum.splits)
  show "raised (patched_scope h env n l r d log0 fs2) =
       (case write_text config_path content (fs_after p) of
          Inl e \<Rightarrow> Some e | Inr fs4 \<Rightarrow> None)"
    using assms(1,2) body by (simp add: patched_scope_def Let_def split: sum.splits)
qed

lemma required_keys:
  "map snd (filter (\<lambda>(k, label). \<not> truthy (env_get env k)) (take 2 API_KEYS)) = [] \<longleftrightarrow>
     truthy (env_get env ''GEMINI_API_KEY'') \<and> truthy (env_get env ''DOUBAO_API_KEY'')"
  by (simp add: API_KEYS_def)

text \<open>A run that passes the checks of lines 102 to 115 is the prepared run, behind the warning if it is due.\<close>

lemma generate_valid:
  assumes "truthy a" and "truthy (env_get (load_env h ef) ''GEMINI_API_KEY'')"
    and "truthy (env_get (load_env h ef) ''DOUBAO_API_KEY'')"
  shows "generate_music_video h ef fs a m l r =
     (let provider = env_get_default (load_env h ef) ''ARK_PROVIDER'' ''byteplus'';
          downgrade = (provider = Some ''byteplus'' \<and> l \<noteq> ''None'');
          pr = prepare_and_run h (load_env h ef) provider (the a)
                 (sanitize_music_name (name_or_untitled m))
                 (if downgrade then ''None'' else l) r fs
      in pr\<lparr>events := (if downgrade then [Yield lip_sync_warning] else []) @ events pr\<rparr>)"
  unfolding generate_music_video_def Let_def
  using assms sanitized_nonempty [of m] required_keys [of "load_env h ef"]
  by simp

lemma prepare_reached:
  assumes "makedirs [AUTOMV_DIR, RESULT_DIR] (path_join RESULT_DIR n) fs = Inr fs1"
    and "lower (snd (splitext a)) = ''.mp3'' \<or> lower (snd (splitext a)) = ''.wav''"
    and "copy2 a (path_join (path_join RESULT_DIR n) (n @ ''.mp3'')) fs1 = Inr fs2"
  shows "\<exists>u. prepare_and_run h env pv a n l r fs =
     (let sc = patched_scope h (make_run_env (os_environ h) env) n l r (path_join RESULT_DIR n)
                 (''=== AutoMV Pipeline ===\<newline>'' @ u) fs2
      in sc\<lparr>events := [MakeDirs (path_join RESULT_DIR n),
                         CopyFile a (path_join (path_join RESULT_DIR n) (n @ ''.mp3'')),
                         Yield (''=== AutoMV Pipeline ===\<newline>'' @ u)] @ events sc\<rparr>)"
proof -
  have "prepare_and_run h env pv a n l r fs =
     (let sc = patched_scope h (make_run_env (os_environ h) env) n l r (path_join RESULT_DIR n)
                 (''=== AutoMV Pipeline ===\<newline>'' @
                  (''Provider: '' @ str_opt pv @ ''\<newline>'' @
                   ''Music: '' @ n @ ''\<newline>'' @
                   ''Lip-sync: '' @ l @ ''\<newline>'' @
                   ''Resolution: '' @ r @ ''\<newline>'' @
                   ''Audio copied to: '' @ path_join (path_join RESULT_DIR n) (n @ ''.mp3'') @
                   ''\<newline>\<newline>'')) fs2
      in sc\<lparr>events := [MakeDirs (path_join RESULT_DIR n),
                         CopyFile a (path_join (path_join RESULT_DIR n) (n @ ''.mp3'')),
                         Yield (''=== AutoMV Pipeline ===\<newline>'' @
                  (''Provider: '' @ str_opt pv @ ''\<newline>'' @
                   ''Music: '' @ n @ ''\<newline>'' @
                   ''Lip-sync: '' @ l @ ''\<newline>'' @
                   ''Resolution: '' @ r @ ''\<newline>'' @
                   ''Audio copied to: '' @ path_join (path_join RESULT_DIR n) (n @ ''.mp3'') @
                   ''\<newline>\<newline>''))] @ events sc\<rparr>)"
    using assms by (auto simp: prepare_and_run_def Let_def)
  then show ?thesis by blast
qed

text \<open>
  C6: take any run that comes to launch stage 1: the audio file and the two required
  keys are there, the project directory is made, the extension is supported, the audio
  file is copied, and the configuration file is read and patched. If the child process
  of stage 1, started on the file system this leaves, ends with a return code other
  than 0, then the run launches that one child process and no other, yields the lines
  of the child, reads the code, and yields the log ending with the line
  \<open>Stage 1 failed with exit code\<close> and the code; behind it the run only writes the
  configuration back. It never writes the stage-2 driver file. It returns without an
  exception if the restoring write succeeds, and with the exception of that write
  otherwise.
\<close>

theorem stage1_failure_stops_run:
  assumes "name = sanitize_music_name (name_or_untitled music_name)"
    and "project_dir = path_join RESULT_DIR name"
    and "audio_file = Some audio" and "audio \<noteq> []"
    and "truthy (env_get (load_env h ef) ''GEMINI_API_KEY'')"
    and "truthy (env_get (load_env h ef) ''DOUBAO_API_KEY'')"
    and "makedirs [AUTOMV_DIR, RESULT_DIR] project_dir fs = Inr fs1"
    and "lower (snd (splitext audio)) = ''.mp3'' \<or> lower (snd (splitext audio)) = ''.wav''"
    and "copy2 audio (path_join project_dir (name @ ''.mp3'')) fs1 = Inr fs2"
    and "read_text fs2 config_path = Inr content"
    and "write_text config_path
           (re_sub match_music_name (''music_name = '' @ [dq] @ name @ [dq]) content) fs2 = Inr fs3"
    and "popen h stage1_cmd (make_run_env (os_environ h) (load_env h ef)) fs3 = p"
    and "ending p = Inr rc" and "rc \<noteq> 0"
    and "g = generate_music_video h ef fs audio_file music_name lip_sync resolution"
  shows "(\<exists>pre log.
            events g =
              pre @ [Popen stage1_cmd] @ snd (stream_lines log (out_lines p)) @
              [ExitCode stage1_cmd rc,
               Yield (log @ concat (out_lines p) @
                      ''\<newline>Stage 1 failed with exit code '' @ str_int rc @ ''\<newline>'')] @
              (case write_text config_path content (fs_after p) of
                 Inl e \<Rightarrow> [] | Inr fs4 \<Rightarrow> [WriteFile config_path content]) \<and>
            launches pre = []) \<and>
         launches (events g) = [stage1_cmd] \<and>
         (\<forall>c. WriteFile gen_script_path c \<notin> set (events g)) \<and>
         final_fs g = (case write_text config_path content (fs_after p) of
                         Inl e \<Rightarrow> fs_after p | Inr fs4 \<Rightarrow> fs4) \<and>
         raised g = (case write_text config_path content (fs_after p) of
                       Inl e \<Rightarrow> Some e | Inr fs4 \<Rightarrow> None)"
proof -
  let ?env = "load_env h ef"
  let ?pv = "env_get_default ?env ''ARK_PROVIDER'' ''byteplus''"
  let ?down = "?pv = Some ''byteplus'' \<and> lip_sync \<noteq> ''None''"
  let ?l = "if ?down then ''None'' else lip_sync"
  let ?w = "if ?down then [Yield lip_sync_warning] else []"
  let ?pr = "prepare_and_run h ?env ?pv audio name ?l resolution fs"
  let ?restore = "case write_text config_path content (fs_after p) of
                    Inl e \<Rightarrow> [] | Inr fs4 \<Rightarrow> [WriteFile config_path content]"
  have "truthy audio_file" using assms(3,4) by simp
  from generate_valid [OF this assms(5,6), of fs music_name lip_sync resolution]
  have g: "g = ?pr\<lparr>events := ?w @ events ?pr\<rparr>"
    using assms(1,3,15) by (simp add: Let_def)
  from prepare_reached [OF assms(7) [unfolded assms(2)] assms(8) assms(9) [unfolded assms(2)],
      of h ?env ?pv ?l resolution]
  obtain u where pr: "?pr =
     (let sc = patched_scope h (make_run_env (os_environ h) ?env) name ?l resolution
                 (path_join RESULT_DIR name) (''=== AutoMV Pipeline ===\<newline>'' @ u) fs2
      in sc\<lparr>events := [MakeDirs (path_join RESULT_DIR name),
                         CopyFile audio (path_join (path_join RESULT_DIR name) (name @ ''.mp3'')),
                         Yield (''=== AutoMV Pipeline ===\<newline>'' @ u)] @ events sc\<rparr>)"
    by blast
  let ?sc = "patched_scope h (make_run_env (os_environ h) ?env) name ?l resolution
                 (path_join RESULT_DIR name) (''=== AutoMV Pipeline ===\<newline>'' @ u) fs2"
  let ?E = "[MakeDirs (path_join RESULT_DIR name),
             CopyFile audio (path_join (path_join RESULT_DIR name) (name @ ''.mp3'')),
             Yield (''=== AutoMV Pipeline ===\<newline>'' @ u)]"
  note sc = scope_stage1_failed [OF assms(10,11,12,13,14), of ?l resolution
      "path_join RESULT_DIR name" "''=== AutoMV Pipeline ===\<newline>'' @ u"]
  from sc(1) obtain pre log where
    ev: "events ?sc = pre @ [Popen stage1_cmd] @ snd (stream_lines log (out_lines p)) @
       [ExitCode stage1_cmd rc, Yield (log @ concat (out_lines p) @ stage1_failed_line rc)] @
       ?restore"
    and la: "launches pre = []"
    and wr: "\<forall>c. WriteFile gen_script_path c \<notin> set pre"
    by blast
  have gev: "events g = ?w @ ?E @ events ?sc"
    by (subst g, subst pr) (simp add: Let_def)
  have gfs: "final_fs g = final_fs ?sc"
    by (subst g, subst pr) (simp add: Let_def)
  have gra: "raised g = raised ?sc"
    by (subst g, subst pr) (simp add: Let_def)
  have "events g =
      (?w @ ?E @ pre) @ [Popen stage1_cmd] @ snd (stream_lines log (out_lines p)) @
      [ExitCode stage1_cmd rc,
       Yield (log @ concat (out_lines p) @
              ''\<newline>Stage 1 failed with exit code '' @ str_int rc @ ''\<newline>'')] @ ?restore"
    using gev ev by (simp add: stage1_failed_line_def)
  moreover have "launches (?w @ ?E @ pre) = []"
    using la by (simp add: launches_append)
  moreover have "\<forall>c. WriteFile gen_script_path c \<notin> set (?w @ ?E @ pre)"
    using wr by simp
  ultimately obtain pre' where
    e1: "events g =
      pre' @ [Popen stage1_cmd] @ snd (stream_lines log (out_lines p)) @
      [ExitCode stage1_cmd rc,
       Yield (log @ concat (out_lines p) @
              ''\<newline>Stage 1 failed with exit code '' @ str_int rc @ ''\<newline>'')] @ ?restore"
    and l1: "launches pre' = []"
    and w1: "\<forall>c. WriteFile gen_script_path c \<notin> set pre'"
    by blast
  have lr: "launches ?restore = []"
    by (simp split: sum.split)
  have a: "\<exists>pre log.
            events g =
              pre @ [Popen stage1_cmd] @ snd (stream_lines log (out_lines p)) @
              [ExitCode stage1_cmd rc,
               Yield (log @ concat (out_lines p) @
                      ''\<newline>Stage 1 failed with exit code '' @ str_int rc @ ''\<newline>'')] @
              ?restore \<and>
            launches pre = []"
    using e1 l1 by blast
  have b: "launches (events g) = [stage1_cmd]"
    by (subst e1) (simp add: launches_append l1 lr stream_lines_launches)
  have w2: "\<forall>c. WriteFile gen_script_path c \<notin> set ?restore"
    using paths_differ by (simp split: sum.split)
  have c: "\<forall>c. WriteFile gen_script_path c \<notin> set (events g)"
    by (subst e1) (use w1 w2 stream_lines_no_write in simp)
  from a b c gfs gra sc(2,3) show ?thesis by simp
qed

theorem stage1_failure_stops_run_witness:
  "launches (events (generate_music_video failing_host sample_env sample_fs
      (Some ''song.mp3'') (Some ''demo'') ''None'' ''480p'')) = [stage1_cmd] \<and>
   (\<forall>c. WriteFile gen_script_path c \<notin> set (events (generate_music_video failing_host sample_env
      sample_fs (Some ''song.mp3'') (Some ''demo'') ''None'' ''480p''))) \<and>
   (\<exists>pre log. events (generate_music_video failing_host sample_env sample_fs
      (Some ''song.mp3'') (Some ''demo'') ''None'' ''480p'') =
        pre @ [Popen stage1_cmd, Yield (log @ ''Traceback'' @ [LF]), ExitCode stage1_cmd 1,
               Yield (log @ ''Traceback'' @ [LF] @ [LF] @ ''Stage 1 failed with exit code 1'' @ [LF]),
               WriteFile config_path (''music_name = \"1\"'' @ [LF])]) \<and>
   raised (generate_music_video failing_host sample_env sample_fs
      (Some ''song.mp3'') (Some ''demo'') ''None'' ''480p'') = None"
proof -
  let ?fs1 = "sample_fs\<lparr>dirs := [''AutoMV_repo'', ''AutoMV_repo/result'',
                                  ''AutoMV_repo/result/demo'']\<rparr>"
  let ?fs2 = "?fs1\<lparr>files := files sample_fs @ [(''AutoMV_repo/result/demo/demo.mp3'', ''ID3'')]\<rparr>"
  let ?fs3 = "?fs2\<lparr>files := AList.update config_path (''music_name = \"demo\"'' @ [LF]) (files ?fs2)\<rparr>"
  let ?p = "\<lparr>out_lines = [''Traceback'' @ [LF]], fs_after = ?fs3, ending = Inr 1\<rparr>"
  have n: "''demo'' = sanitize_music_name (name_or_untitled (Some ''demo''))" by code_simp
  have d: "''AutoMV_repo/result/demo'' = path_join RESULT_DIR ''demo''" by code_simp
  have k1: "truthy (env_get (load_env failing_host sample_env) ''GEMINI_API_KEY'')" by code_simp
  have k2: "truthy (env_get (load_env failing_host sample_env) ''DOUBAO_API_KEY'')" by code_simp
  have mk: "makedirs [AUTOMV_DIR, RESULT_DIR] ''AutoMV_repo/result/demo'' sample_fs = Inr ?fs1"
    by code_simp
  have ex: "lower (snd (splitext ''song.mp3'')) = ''.mp3'' \<or>
            lower (snd (splitext ''song.mp3'')) = ''.wav''" by code_simp
  have cp: "copy2 ''song.mp3'' (path_join ''AutoMV_repo/result/demo'' (''demo'' @ ''.mp3'')) ?fs1 =
      Inr ?fs2" by code_simp
  have rd: "read_text ?fs2 config_path = Inr (''music_name = \"1\"'' @ [LF])" by code_simp
  have wt: "write_text config_path
      (re_sub match_music_name (''music_name = '' @ [dq] @ ''demo'' @ [dq])
         (''music_name = \"1\"'' @ [LF])) ?fs2 = Inr ?fs3" by code_simp
  have po: "popen failing_host stage1_cmd
      (make_run_env (os_environ failing_host) (load_env failing_host sample_env)) ?fs3 = ?p"
    by code_simp
  have en: "ending ?p = Inr 1" by simp
  have nz: "(1 :: int) \<noteq> 0" by simp
  have re: "write_text config_path (''music_name = \"1\"'' @ [LF]) (fs_after ?p) = Inr ?fs2"
    by code_simp
  have s: "str_int 1 = ''1''" by code_simp
  note t = stage1_failure_stops_run [OF n d refl _ k1 k2 mk ex cp rd wt po en nz refl,
      of "''None''" "''480p''"]
  have ne: "''song.mp3'' \<noteq> []" by simp
  from t [OF ne] show ?thesis
    by (simp only: re s sum.case) (simp add: LF_def, blast)
qed

lemma scope_yield:
  "Yield t \<in> set (events (patched_scope h env n l r d log0 fs0)) \<Longrightarrow> \<exists>u. t = log0 @ u"
  by (auto simp: patched_scope_def Let_def split: sum.splits dest!: body_yield)

lemma prepare_cases:
  "(\<exists>e. prepare_and_run h env pv a n l r fs0 = \<lparr>events = [], final_fs = fs0, raised = Some e\<rparr>) \<or>
   (\<exists>fs1. prepare_and_run h env pv a n l r fs0 =
        \<lparr>events = [MakeDirs (path_join RESULT_DIR n), Yield err_bad_ext], final_fs = fs1, raised = None\<rparr>) \<or>
   (\<exists>fs1 e. prepare_and_run h env pv a n l r fs0 =
        \<lparr>events = [MakeDirs (path_join RESULT_DIR n)], final_fs = fs1, raised = Some e\<rparr>) \<or>
   (\<exists>fs1 fs2 u sc.
        makedirs [AUTOMV_DIR, RESULT_DIR] (path_join RESULT_DIR n) fs0 = Inr fs1 \<and>
        copy2 a (path_join (path_join RESULT_DIR n) (n @ ''.mp3'')) fs1 = Inr fs2 \<and>
        sc = patched_scope h (make_run_env (os_environ h) env) n l r (path_join RESULT_DIR n)
               (''=== AutoMV Pipeline ===\<newline>'' @ u) fs2 \<and>
        prepare_and_run h env pv a n l r fs0 =
          sc\<lparr>events := [MakeDirs (path_join RESULT_DIR n),
                          CopyFile a (path_join (path_join RESULT_DIR n) (n @ ''.mp3'')),
                          Yield (''=== AutoMV Pipeline ===\<newline>'' @ u)] @ events sc\<rparr>)"
  unfolding prepare_and_run_def Let_def
  by (simp only: append_assoc split: sum.split if_split) blast


lemma prepare_yield:
  assumes "Yield t \<in> set (events (prepare_and_run h env pv a n l r fs0))"
  shows "t = err_bad_ext \<or> (\<exists>u. t = ''=== AutoMV Pipeline ===\<newline>'' @ u)"
  using prepare_cases [of h env pv a n l r fs0]
proof (elim disjE exE conjE)
  fix e assume "prepare_and_run h env pv a n l r fs0 = \<lparr>events = [], final_fs = fs0, raised = Some e\<rparr>"
  with assms show ?thesis by simp
next
  fix fs1 assume "prepare_and_run h env pv a n l r fs0 =
        \<lparr>events = [MakeDirs (path_join RESULT_DIR n), Yield err_bad_ext], final_fs = fs1, raised = None\<rparr>"
  with assms show ?thesis by simp
next
  fix fs1 e assume "prepare_and_run h env pv a n l r fs0 =
        \<lparr>events = [MakeDirs (path_join RESULT_DIR n)], final_fs = fs1, raised = Some e\<rparr>"
  with assms show ?thesis by simp
next
  fix fs1 fs2 u sc
  assume sc: "sc = patched_scope h (make_run_env (os_environ h) env) n l r (path_join RESULT_DIR n)
               (''=== AutoMV Pipeline ===\<newline>'' @ u) fs2"
    and pr: "prepare_and_run h env pv a n l r fs0 =
          sc\<lparr>events := [MakeDirs (path_join RESULT_DIR n),
                          CopyFile a (path_join (path_join RESULT_DIR n) (n @ ''.mp3'')),
                          Yield (''=== AutoMV Pipeline ===\<newline>'' @ u)] @ events sc\<rparr>"
  from assms pr have "t = ''=== AutoMV Pipeline ===\<newline>'' @ u \<or> Yield t \<in> set (events sc)"
    by simp
  then show ?thesis
  proof
    assume "t = ''=== AutoMV Pipeline ===\<newline>'' @ u"
    then show ?thesis by blast
  next
    assume "Yield t \<in> set (events sc)"
    with sc scope_yield obtain v where "t = (''=== AutoMV Pipeline ===\<newline>'' @ u) @ v"
      by blast
    then have "t = ''=== AutoMV Pipeline ===\<newline>'' @ (u @ v)" by simp
    then show ?thesis by blast
  qed
qed

lemma generate_cases:
  "generate_music_video h ef fs a m l r = \<lparr>events = [Yield err_no_audio], final_fs = fs, raised = None\<rparr> \<or>
   (\<exists>u. generate_music_video h ef fs a m l r =
      \<lparr>events = [Yield (''Error: Required API keys not configured: '' @ u)], final_fs = fs, raised = None\<rparr>) \<or>
   (\<exists>w pv l' pr. (w = [] \<or> w = [Yield lip_sync_warning]) \<and>
      pr = prepare_and_run h (load_env h ef) pv (the a) (sanitize_music_name (name_or_untitled m)) l' r fs \<and>
      generate_music_video h ef fs a m l r = pr\<lparr>events := w @ events pr\<rparr>)"
  unfolding generate_music_video_def Let_def
  using sanitized_nonempty [of m]
  by (simp only: split: if_split) blast


lemma generate_yield:
  assumes "Yield t \<in> set (events (generate_music_video h ef fs a m l r))"
  shows "t = err_no_audio \<or> t = lip_sync_warning \<or> t = err_bad_ext \<or>
     (\<exists>u. t = ''Error: Required API keys not configured: '' @ u) \<or>
     (\<exists>u. t = ''=== AutoMV Pipeline ===\<newline>'' @ u)"
  using generate_cases [of h ef fs a m l r]
proof (elim disjE exE conjE)
  assume "generate_music_video h ef fs a m l r =
      \<lparr>events = [Yield err_no_audio], final_fs = fs, raised = None\<rparr>"
  with assms show ?thesis by simp
next
  fix u assume "generate_music_video h ef fs a m l r =
      \<lparr>events = [Yield (''Error: Required API keys not configured: '' @ u)], final_fs = fs, raised = None\<rparr>"
  with assms have "t = ''Error: Required API keys not configured: '' @ u" by simp
  then show ?thesis by blast
next
  fix w pv l' pr
  assume pr: "pr = prepare_and_run h (load_env h ef) pv (the a) (sanitize_music_name (name_or_untitled m)) l' r fs"
    and g: "generate_music_video h ef fs a m l r = pr\<lparr>events := w @ events pr\<rparr>"
    and w: "w = []"
  from assms g w have "Yield t \<in> set (events pr)" by simp
  with pr prepare_yield show ?thesis by blast
next
  fix w pv l' pr
  assume pr: "pr = prepare_and_run h (load_env h ef) pv (the a) (sanitize_music_name (name_or_untitled m)) l' r fs"
    and g: "generate_music_video h ef fs a m l r = pr\<lparr>events := w @ events pr\<rparr>"
    and w: "w = [Yield lip_sync_warning]"
  from assms g w have "t = lip_sync_warning \<or> Yield t \<in> set (events pr)" by simp
  with pr prepare_yield show ?thesis by blast
qed

text \<open>
  C10: sanitizing keeps the length of every string; the name a run goes on with, the
  sanitized \<open>music_name\<close> or the sanitized default \<open>untitled\<close>, is never empty; and no
  run yields the error line of the empty-name branch.
\<close>

theorem sanitized_name_never_empty:
  "length (sanitize_music_name name) = length name \<and>
   sanitize_music_name (name_or_untitled music_name) \<noteq> [] \<and>
   Yield ''Error: Please provide a valid music name (letters, numbers, underscores).''
     \<notin> set (events (generate_music_video h ef fs audio_file music_name lip_sync resolution))"
proof (intro conjI)
  show "length (sanitize_music_name name) = length name"
    by (simp add: sanitize_music_name_def)
  show "sanitize_music_name (name_or_untitled music_name) \<noteq> []"
    by (rule sanitized_nonempty)
  show "Yield ''Error: Please provide a valid music name (letters, numbers, underscores).''
     \<notin> set (events (generate_music_video h ef fs audio_file music_name lip_sync resolution))"
  proof
    assume "Yield ''Error: Please provide a valid music name (letters, numbers, underscores).''
      \<in> set (events (generate_music_video h ef fs audio_file music_name lip_sync resolution))"
    from generate_yield [OF this] show False
      by (auto simp: err_no_audio_def lip_sync_warning_def err_bad_ext_def)
  qed
qed


theorem sanitized_name_never_empty_witness:
  "length (sanitize_music_name ''a b'') = length ''a b'' \<and>
   sanitize_music_name (name_or_untitled (Some [])) = ''untitled'' \<and>
   Yield ''Error: Please provide a valid music name (letters, numbers, underscores).''
     \<notin> set (events (generate_music_video working_host sample_env sample_fs
                        (Some ''song.mp3'') (Some []) ''None'' ''480p''))"
proof -
  have "sanitize_music_name (name_or_untitled (Some [])) = ''untitled''"
    by code_simp
  then show ?thesis
    using sanitized_name_never_empty [of "''a b''" "Some []" working_host sample_env sample_fs
        "Some ''song.mp3''" "''None''" "''480p''"]
    by simp
qed

lemma scope_write:
  "WriteFile p c \<in> set (events (patched_scope h env n l r d log0 fs0)) \<Longrightarrow>
     p = config_path \<or> (p = gen_script_path \<and> c = build_gen_script n l r)"
  by (auto simp: patched_scope_def Let_def split: sum.splits dest!: body_write)

lemma prepare_write:
  assumes "WriteFile p c \<in> set (events (prepare_and_run h env pv a n l r fs0))"
  shows "p = config_path \<or> (p = gen_script_path \<and> c = build_gen_script n l r)"
  using prepare_cases [of h env pv a n l r fs0]
proof (elim disjE exE conjE)
  fix fs1 fs2 u sc
  assume sc: "sc = patched_scope h (make_run_env (os_environ h) env) n l r (path_join RESULT_DIR n)
               (''=== AutoMV Pipeline ===\<newline>'' @ u) fs2"
    and pr: "prepare_and_run h env pv a n l r fs0 =
          sc\<lparr>events := [MakeDirs (path_join RESULT_DIR n),
                          CopyFile a (path_join (path_join RESULT_DIR n) (n @ ''.mp3'')),
                          Yield (''=== AutoMV Pipeline ===\<newline>'' @ u)] @ events sc\<rparr>"
  from assms pr have "WriteFile p c \<in> set (events sc)" by simp
  with sc scope_write show ?thesis by blast
qed (use assms in simp_all)

text \<open>
  C5: take any run in which the provider read from the settings is \<open>byteplus\<close> (also
  by default) and the lip-sync mode asked for is not \<open>None\<close>. If the audio file and the
  two required keys are there, the run is the warning, yielded first, and then the run
  of the mode \<open>None\<close>. So if the run launches stage 1, the first thing it did was to
  yield the warning; and if it writes the stage-2 driver, it is the driver of the mode
  \<open>None\<close>.
\<close>

theorem lip_sync_forced_to_none:
  assumes "env_get_default (load_env h ef) ''ARK_PROVIDER'' ''byteplus'' = Some ''byteplus''"
    and "lip_sync \<noteq> ''None''"
  shows "(truthy audio_file \<and> truthy (env_get (load_env h ef) ''GEMINI_API_KEY'') \<and>
          truthy (env_get (load_env h ef) ''DOUBAO_API_KEY'') \<longrightarrow>
          generate_music_video h ef fs audio_file music_name lip_sync resolution =
            (let rest = prepare_and_run h (load_env h ef) (Some ''byteplus'') (the audio_file)
                          (sanitize_music_name (name_or_untitled music_name)) ''None'' resolution fs
             in rest\<lparr>events := Yield lip_sync_warning # events rest\<rparr>)) \<and>
         (Popen stage1_cmd \<in> set (events (generate_music_video h ef fs audio_file music_name
                                          lip_sync resolution)) \<longrightarrow>
          (\<exists>rest. events (generate_music_video h ef fs audio_file music_name lip_sync resolution) =
                    Yield lip_sync_warning # rest)) \<and>
         (\<forall>c. WriteFile gen_script_path c \<in> set (events (generate_music_video h ef fs audio_file
                                                       music_name lip_sync resolution)) \<longrightarrow>
              c = build_gen_script (sanitize_music_name (name_or_untitled music_name)) ''None''
                    resolution)"
proof -
  let ?g = "generate_music_video h ef fs audio_file music_name lip_sync resolution"
  let ?n = "sanitize_music_name (name_or_untitled music_name)"
  let ?pr = "prepare_and_run h (load_env h ef) (Some ''byteplus'') (the audio_file) ?n ''None''
               resolution fs"
  let ?valid = "truthy audio_file \<and> truthy (env_get (load_env h ef) ''GEMINI_API_KEY'') \<and>
          truthy (env_get (load_env h ef) ''DOUBAO_API_KEY'')"
  have run: "?g = ?pr\<lparr>events := Yield lip_sync_warning # events ?pr\<rparr>" if ?valid
    unfolding generate_music_video_def Let_def
    using that assms sanitized_nonempty [of music_name] required_keys [of "load_env h ef"]
    by simp
  have early: "\<exists>t. events ?g = [Yield t]" if "\<not> ?valid"
    unfolding generate_music_video_def Let_def
    using that sanitized_nonempty [of music_name] required_keys [of "load_env h ef"]
    by auto
  have ev: "events ?g = Yield lip_sync_warning # events ?pr" if ?valid
    by (subst run [OF that]) simp
  have a: "?valid \<longrightarrow> ?g = (let rest = ?pr in rest\<lparr>events := Yield lip_sync_warning # events rest\<rparr>)"
    using run by (simp add: Let_def)
  have b: "Popen stage1_cmd \<in> set (events ?g) \<longrightarrow> (\<exists>rest. events ?g = Yield lip_sync_warning # rest)"
  proof
    assume p: "Popen stage1_cmd \<in> set (events ?g)"
    have ?valid
    proof (rule ccontr)
      assume "\<not> ?valid"
      from early [OF this] p show False by auto
    qed
    from ev [OF this] show "\<exists>rest. events ?g = Yield lip_sync_warning # rest" by blast
  qed
  have c: "\<forall>c. WriteFile gen_script_path c \<in> set (events ?g) \<longrightarrow>
              c = build_gen_script ?n ''None'' resolution"
  proof (intro allI impI)
    fix c
    assume w: "WriteFile gen_script_path c \<in> set (events ?g)"
    have ?valid
    proof (rule ccontr)
      assume "\<not> ?valid"
      from early [OF this] w show False by auto
    qed
    from ev [OF this] w have "WriteFile gen_script_path c \<in> set (events ?pr)" by simp
    from prepare_write [OF this] paths_differ show "c = build_gen_script ?n ''None'' resolution"
      by blast
  qed
  from a b c show ?thesis by blast
qed


theorem lip_sync_forced_to_none_witness:
  "env_get_default (load_env working_host sample_env) ''ARK_PROVIDER'' ''byteplus'' = Some ''byteplus'' \<and>
   ''Jimeng (fast)'' \<noteq> ''None'' \<and>
   Popen stage1_cmd \<in> set (events (generate_music_video working_host sample_env sample_fs
      (Some ''song.mp3'') (Some ''demo'') ''Jimeng (fast)'' ''480p'')) \<and>
   (\<exists>rest. events (generate_music_video working_host sample_env sample_fs
      (Some ''song.mp3'') (Some ''demo'') ''Jimeng (fast)'' ''480p'') = Yield lip_sync_warning # rest) \<and>
   WriteFile gen_script_path (build_gen_script ''demo'' ''None'' ''480p'')
     \<in> set (events (generate_music_video working_host sample_env sample_fs
      (Some ''song.mp3'') (Some ''demo'') ''Jimeng (fast)'' ''480p''))"
proof -
  have p: "env_get_default (load_env working_host sample_env) ''ARK_PROVIDER'' ''byteplus'' = Some ''byteplus''"
    by code_simp
  have q: "''Jimeng (fast)'' \<noteq> ''None''" by simp
  have s1: "Popen stage1_cmd \<in> set (events (generate_music_video working_host sample_env
      sample_fs (Some ''song.mp3'') (Some ''demo'') ''Jimeng (fast)'' ''480p''))"
    by code_simp
  have w: "WriteFile gen_script_path (build_gen_script ''demo'' ''None'' ''480p'')
     \<in> set (events (generate_music_video working_host sample_env sample_fs
      (Some ''song.mp3'') (Some ''demo'') ''Jimeng (fast)'' ''480p''))"
    by code_simp
  from lip_sync_forced_to_none [where audio_file = "Some ''song.mp3''" and fs = sample_fs
      and music_name = "Some ''demo''" and resolution = "''480p''", OF p q] s1
  have "\<exists>rest. events (generate_music_video working_host sample_env sample_fs
      (Some ''song.mp3'') (Some ''demo'') ''Jimeng (fast)'' ''480p'') = Yield lip_sync_warning # rest"
    by blast
  with p q s1 w show ?thesis by blast
qed

lemma path_join_suffix: "\<exists>x. path_join a b = x @ b"
proof -
  have "path_join a b = [] @ b \<or> path_join a b = a @ b \<or> path_join a b = (a @ ''/'') @ b"
    by (simp add: path_join_def)
  then show ?thesis by blast
qed

text \<open>
  C1 fails on the code. The \<open>finally\<close> block (lines 230 to 233, under the comment
  \<open>Restore original config\<close>) writes back the text that line 147 read in text mode, in
  which every CR LF has become LF. With a configuration file whose line ends with
  CR LF, and a stage 1 that fails, the file ends with LF alone when the run is over:
  it is not the content from before the run.
\<close>

theorem config_crlf_not_restored:
  "WriteFile config_path (''music_name = \"demo\"'' @ [LF])
     \<in> set (events (generate_music_video failing_host sample_env crlf_fs
                      (Some ''song.mp3'') (Some ''demo'') ''None'' ''480p'')) \<and>
   raised (generate_music_video failing_host sample_env crlf_fs
                      (Some ''song.mp3'') (Some ''demo'') ''None'' ''480p'') = None \<and>
   raw_content crlf_fs config_path = Some (''music_name = \"1\"'' @ [CR, LF]) \<and>
   raw_content (final_fs (generate_music_video failing_host sample_env crlf_fs
                      (Some ''song.mp3'') (Some ''demo'') ''None'' ''480p'')) config_path =
     Some (''music_name = \"1\"'' @ [LF]) \<and>
   raw_content (final_fs (generate_music_video failing_host sample_env crlf_fs
                      (Some ''song.mp3'') (Some ''demo'') ''None'' ''480p'')) config_path \<noteq>
     raw_content crlf_fs config_path"
  by code_simp

text \<open>
  C2 fails on the code: with an audio file \<open>song.ogg\<close> the run yields the error line,
  but the project directory has been created before the extension is looked at.
\<close>

theorem unsupported_extension_creates_directory:
  "generate_music_video working_host sample_env sample_fs
     (Some ''song.ogg'') (Some ''demo'') ''None'' ''480p'' =
     \<lparr>events = [MakeDirs ''AutoMV_repo/result/demo'',
                Yield ''Error: Only .mp3 and .wav files are supported.''],
      final_fs = sample_fs\<lparr>dirs := [''AutoMV_repo'', ''AutoMV_repo/result'',
                                    ''AutoMV_repo/result/demo'']\<rparr>,
      raised = None\<rparr> \<and>
   \<not> isdir sample_fs ''AutoMV_repo/result/demo'' \<and>
   isdir (final_fs (generate_music_video working_host sample_env sample_fs
     (Some ''song.ogg'') (Some ''demo'') ''None'' ''480p'')) ''AutoMV_repo/result/demo''"
  by code_simp

section \<open>Properties of the patcher\<close>

lemma starts_with_iff: "starts_with s p \<longleftrightarrow> (\<exists>r. s = p @ r)"
  by (induction s p rule: starts_with.induct) auto

lemma split_first_sound: "split_first old s = Some (a, b) \<Longrightarrow> s = a @ old @ b"
proof (induction s arbitrary: a)
  case Nil
  then show ?case by (auto split: if_splits)
next
  case (Cons c cs)
  show ?case
  proof (cases "starts_with (c # cs) old")
    case True
    with Cons.prems have ab: "a = []" "b = drop (length old) (c # cs)" by simp_all
    from True obtain r where r: "c # cs = old @ r" using starts_with_iff by blast
    then have "drop (length old) (c # cs) = r" by (metis append_eq_conv_conj)
    with ab r show ?thesis by simp
  next
    case False
    with Cons.prems obtain a' where "split_first old cs = Some (a', b)" and "a = c # a'"
      by (auto split: option.splits)
    with Cons.IH show ?thesis by auto
  qed
qed

lemma split_first_complete: "s = a @ old @ b \<Longrightarrow> split_first old s \<noteq> None"
proof (induction a arbitrary: s)
  case Nil
  then have sw: "starts_with s old" using starts_with_iff by auto
  show ?case
  proof (cases s)
    case Nil
    with sw have "old = []" by (cases old) auto
    with Nil show ?thesis by simp
  next
    case (Cons c cs)
    with sw show ?thesis by simp
  qed
next
  case (Cons c a)
  then have "split_first old (a @ old @ b) \<noteq> None" by simp
  with Cons.prems show ?case by (auto split: option.splits)
qed

lemma contains_iff: "contains s old \<longleftrightarrow> (\<exists>a b. s = a @ old @ b)"
proof
  assume "contains s old"
  then obtain a b where "split_first old s = Some (a, b)"
    by (auto simp: contains_def)
  from split_first_sound [OF this] show "\<exists>a b. s = a @ old @ b" by blast
next
  assume "\<exists>a b. s = a @ old @ b"
  then show "contains s old"
    using split_first_complete by (auto simp: contains_def)
qed

lemma newlines_from_plain:
  "CR \<notin> set m \<Longrightarrow> LF \<notin> set m \<Longrightarrow> newlines_from f (m @ b) = m @ newlines_from (if m = [] then f else False) b"
  by (induction m arbitrary: f) auto

lemma newlines_from_append:
  "\<exists>f'. newlines_from f (a @ b) = newlines_from f a @ newlines_from f' b"
proof (induction a arbitrary: f)
  case Nil
  show ?case by auto
next
  case (Cons c a)
  show ?case
    using Cons.IH [of True] Cons.IH [of False] by auto
qed

lemma contains_universal_newlines:
  assumes "contains raw m" and "m \<noteq> []" and "CR \<notin> set m" and "LF \<notin> set m"
  shows "contains (universal_newlines raw) m"
proof -
  from assms(1) obtain a b where raw: "raw = a @ m @ b" using contains_iff by blast
  obtain f' where "newlines_from False (a @ (m @ b)) = newlines_from False a @ newlines_from f' (m @ b)"
    using newlines_from_append by blast
  moreover have "newlines_from f' (m @ b) = m @ newlines_from False b"
    using newlines_from_plain [OF assms(3,4)] assms(2) by simp
  ultimately have "universal_newlines raw = newlines_from False a @ m @ newlines_from False b"
    using raw by (simp add: universal_newlines_def)
  then show ?thesis using contains_iff by blast
qed

text \<open>A replacement puts its new text in, and keeps what its anchor does not touch.\<close>

lemma replace_first_split:
  "contains s old \<Longrightarrow> \<exists>a b. s = a @ old @ b \<and> replace_first old new s = a @ new @ b"
proof -
  assume "contains s old"
  then obtain a b where sp: "split_first old s = Some (a, b)"
    by (auto simp: contains_def)
  from split_first_sound [OF sp] sp show ?thesis
    by (auto simp: replace_first_def)
qed

lemma contains_mid: "contains y m \<Longrightarrow> contains (a @ y @ b) m"
proof -
  assume "contains y m"
  then obtain u v where "y = u @ m @ v" using contains_iff by blast
  then have "a @ y @ b = (a @ u) @ m @ (v @ b)" by simp
  then show ?thesis using contains_iff by blast
qed

lemma replace_first_inserts:
  "contains s old \<Longrightarrow> contains new m \<Longrightarrow> contains (replace_first old new s) m"
  using replace_first_split [of s old new] contains_mid by auto

lemma suffix_prefixI:
  assumes "x = us @ vs" and "y = vs @ ws" and "vs \<noteq> []"
  shows "suffix_prefix x y"
proof -
  let ?k = "length vs"
  have "?k \<in> set [1 ..< Suc (min (length x) (length y))]"
    using assms by (cases vs) auto
  moreover have "drop (length x - ?k) x = take ?k y"
    using assms by simp
  ultimately show ?thesis
    unfolding suffix_prefix_def list_ex_iff by blast
qed

lemma append_eq_cases:
  "xs @ ys = zs @ ts \<Longrightarrow>
     (\<exists>us. xs = zs @ us \<and> us @ ys = ts) \<or> (\<exists>us. xs @ us = zs \<and> ys = us @ ts)"
  by (simp only: append_eq_append_conv2) blast

lemma replace_first_keeps:
  assumes m: "contains s m" and nc: "\<not> clash old m"
  shows "contains (replace_first old new s) m"
proof (cases "contains s old")
  case False
  then have "split_first old s = None" by (cases "split_first old s") (auto simp: contains_def)
  then show ?thesis using m by (simp add: replace_first_def)
next
  case True
  from replace_first_split [OF True, of new] obtain a' b' where
    s': "s = a' @ old @ b'" and r: "replace_first old new s = a' @ new @ b'" by blast
  from m obtain a b where s: "s = a @ m @ b" using contains_iff by blast
  have no1: "\<not> contains old m" and no2: "\<not> contains m old"
    and no3: "\<not> suffix_prefix old m" and no4: "\<not> suffix_prefix m old"
    using nc by (auto simp: clash_def)
  from s s' have "a @ (m @ b) = a' @ (old @ b')" by simp
  then consider us where "a = a' @ us" "us @ m @ b = old @ b'"
    | us where "a @ us = a'" "m @ b = us @ old @ b'"
    by (blast dest: append_eq_cases)
  then show ?thesis
  proof cases
    case 1
    from 1(2) consider vs where "us = old @ vs" "vs @ m @ b = b'"
      | vs where "us @ vs = old" "m @ b = vs @ b'"
      by (blast dest: append_eq_cases)
    then show ?thesis
    proof cases
      case 1
      then have "replace_first old new s = (a' @ new @ vs) @ m @ b" using r by simp
      then show ?thesis using contains_iff by blast
    next
      case 2
      from 2(2) consider ws where "m = vs @ ws" "ws @ b = b'"
        | ws where "m @ ws = vs" "b = ws @ b'"
        by (blast dest: append_eq_cases)
      then show ?thesis
      proof cases
        case 1
        show ?thesis
        proof (cases "vs = []")
          case True
          with 1 2 have "replace_first old new s = (a' @ new) @ m @ b" using r by simp
          then show ?thesis using contains_iff by blast
        next
          case False
          from suffix_prefixI [OF 2(1) [symmetric] 1(1) False] no3 show ?thesis by simp
        qed
      next
        case 3: 2
        from 2(1) 3(1) have "old = us @ m @ ws" by simp
        then show ?thesis using no1 contains_iff by blast
      qed
    qed
  next
    case 2
    from 2(2) consider vs where "m = us @ vs" "vs @ b = old @ b'"
      | vs where "m @ vs = us" "b = vs @ old @ b'"
      by (blast dest: append_eq_cases)
    then show ?thesis
    proof cases
      case 3: 2
      from 2(1) 3(1) have "replace_first old new s = a @ m @ (vs @ new @ b')" using r by auto
      then show ?thesis using contains_iff by blast
    next
      case 3: 1
      from 3(2) consider ws where "vs = old @ ws" "ws @ b = b'"
        | ws where "vs @ ws = old" "b = ws @ b'"
        by (blast dest: append_eq_cases)
      then show ?thesis
      proof cases
        case 1
        with 3(1) have "m = us @ old @ ws" by simp
        then show ?thesis using no2 contains_iff by blast
      next
        case 4: 2
        show ?thesis
        proof (cases "vs = []")
          case True
          with 3(1) 2(1) have "replace_first old new s = a @ m @ (new @ b')" using r by auto
          then show ?thesis using contains_iff by blast
        next
          case False
          from suffix_prefixI [OF 3(1) 4(1) [symmetric] False] no4 show ?thesis by simp
        qed
      qed
    qed
  qed
qed

lemma apply_replacements_keeps:
  "contains s m \<Longrightarrow> list_all (\<lambda>r. \<not> clash (fst r) m) rs \<Longrightarrow>
     contains (fst (apply_replacements fp rs s)) m"
proof (induction rs arbitrary: s)
  case Nil
  then show ?case by simp
next
  case (Cons r rs)
  obtain old new where r: "r = (old, new)" by (cases r)
  show ?case
  proof (cases "contains s old")
    case True
    from Cons.prems r have "contains (replace_first old new s) m"
      using replace_first_keeps by simp
    with Cons True r show ?thesis by simp
  next
    case False
    with Cons r show ?thesis by (simp add: case_prod_beta)
  qed
qed

lemma apply_replacements_inserts:
  assumes "rs \<noteq> []" and "contains s (fst (hd rs))" and "contains (snd (hd rs)) m"
    and "list_all (\<lambda>r. \<not> clash (fst r) m) (tl rs)"
  shows "contains (fst (apply_replacements fp rs s)) m"
proof -
  from assms(1) obtain old new rest where rs: "rs = (old, new) # rest"
    by (cases rs) auto
  with assms have "contains (replace_first old new s) m"
    using replace_first_inserts by simp
  from apply_replacements_keeps [OF this] assms(4) rs assms(2) show ?thesis by simp
qed

lemma re_sub_changed:
  "re_sub m repl s \<noteq> s \<Longrightarrow> \<exists>a b. re_sub m repl s = a @ repl @ b"
proof (induction m repl s rule: re_sub.induct)
  case (1 m repl)
  then show ?case by simp
next
  case (2 m repl c cs)
  show ?case
  proof (cases "m (c # cs)")
    case None
    with 2 obtain a b where "re_sub m repl cs = a @ repl @ b" by auto
    with None have "re_sub m repl (c # cs) = (c # a) @ repl @ b" by simp
    then show ?thesis by blast
  next
    case (Some rest)
    show ?thesis
    proof (cases "length rest < length (c # cs)")
      case True
      with Some have "re_sub m repl (c # cs) = [] @ repl @ re_sub m repl rest" by simp
      then show ?thesis by blast
    next
      case False
      with Some 2 obtain a b where "re_sub m repl cs = a @ repl @ b" by auto
      with Some False have "re_sub m repl (c # cs) = (c # a) @ repl @ b" by simp
      then show ?thesis by blast
    qed
  qed
qed

text \<open>Reading a file, and reading it again behind a write.\<close>

lemma read_text_file:
  "read_text fs p = Inr c \<Longrightarrow>
     isfile fs p \<and> p \<notin> set (denied fs) \<and>
     (\<exists>raw. map_of (files fs) p = Some raw \<and> c = universal_newlines raw)"
  by (auto simp: read_text_def isfile_def split: option.splits if_splits)

lemma write_text_files:
  "write_text p t fs = Inr fs' \<Longrightarrow> fs' = fs\<lparr>files := AList.update p t (files fs)\<rparr>"
  by (auto simp: write_text_def store_file_def split: if_splits)

lemma read_after_write:
  assumes "read_text fs p = Inr c" and "write_text p t fs = Inr fs'"
  shows "read_text fs' p = Inr (universal_newlines t)" and "path_exists fs' p"
proof -
  from read_text_file [OF assms(1)] have nd: "p \<notin> set (denied fs)" by simp
  from write_text_files [OF assms(2)] have fs': "fs' = fs\<lparr>files := AList.update p t (files fs)\<rparr>" .
  have m: "map_of (files fs') p = Some t" by (simp add: fs' update_conv')
  with nd fs' show "read_text fs' p = Inr (universal_newlines t)"
    by (simp add: read_text_def)
  from m show "path_exists fs' p" by (simp add: path_exists_def isfile_def)
qed

lemma held_read:
  assumes "file_holds fs filepath s" and "s \<noteq> []" and "CR \<notin> set s" and "LF \<notin> set s"
  shows "path_exists fs (path_join REPO_DIR filepath) \<and>
         (\<exists>content. read_text fs (path_join REPO_DIR filepath) = Inr content \<and>
                     contains content s)"
proof -
  from assms(1) obtain raw where raw: "raw_content fs (path_join REPO_DIR filepath) = Some raw"
    and nd: "path_join REPO_DIR filepath \<notin> set (denied fs)"
    and c: "contains raw s"
    by (auto simp: file_holds_def split: option.splits)
  from raw have "path_exists fs (path_join REPO_DIR filepath)"
    by (simp add: path_exists_def isfile_def raw_content_def)
  moreover from raw nd have "read_text fs (path_join REPO_DIR filepath) = Inr (universal_newlines raw)"
    by (simp add: read_text_def raw_content_def)
  moreover have "contains (universal_newlines raw) s"
    using contains_universal_newlines [OF c assms(2,3,4)] .
  ultimately show ?thesis by blast
qed

text \<open>A step that reads the marker prints \<open>already patched\<close> and writes nothing.\<close>

lemma patch_file_read_marked:
  assumes "read_text fs (path_join REPO_DIR filepath) = Inr content"
    and "contains content marker" and "marker \<noteq> []"
  shows "patch_file filepath reps marker fs =
     \<lparr>printed = [''  [OK] '' @ filepath @ '' already patched''], fs_left = fs,
      result = Returned True\<rparr>"
proof -
  from read_text_file [OF assms(1)] have "path_exists fs (path_join REPO_DIR filepath)"
    by (simp add: path_exists_def)
  with assms show ?thesis by (simp add: patch_file_def Let_def)
qed

lemma patch_file_marked:
  assumes "file_holds fs filepath marker" and "marker \<noteq> []"
    and "CR \<notin> set marker" and "LF \<notin> set marker"
  shows "patch_file filepath reps marker fs =
     \<lparr>printed = [''  [OK] '' @ filepath @ '' already patched''], fs_left = fs,
      result = Returned True\<rparr>"
  using held_read [OF assms] patch_file_read_marked assms(2) by blast

lemma patch_config_read_marked:
  assumes "read_text fs (path_join REPO_DIR ''config.py'') = Inr content"
    and "contains content ''ARK_PROVIDER''"
  shows "patch_config fs =
     \<lparr>printed = [''  [OK] config.py already patched''], fs_left = fs, result = Returned True\<rparr>"
  using assms by (simp add: patch_config_def Let_def)

lemma patch_config_marked:
  assumes "file_holds fs ''config.py'' ''ARK_PROVIDER''"
  shows "patch_config fs =
     \<lparr>printed = [''  [OK] config.py already patched''], fs_left = fs, result = Returned True\<rparr>"
proof -
  have "\<exists>content. read_text fs (path_join REPO_DIR ''config.py'') = Inr content \<and>
                     contains content ''ARK_PROVIDER''"
    using held_read [OF assms] by (simp add: CR_def LF_def)
  then show ?thesis using patch_config_read_marked by blast
qed

lemma patch_picture_marked:
  assumes "file_holds fs ''picture_generate/picture.py'' ''byteplussdkarkruntime''"
  shows "patch_picture fs =
     \<lparr>printed = [''  [OK] picture_generate/picture.py already patched''], fs_left = fs,
      result = Returned True\<rparr>"
  unfolding patch_picture_def default_marker_def
  by (subst patch_file_marked [OF assms]) (simp_all add: CR_def LF_def)

lemma patch_video_pipeline_marked:
  assumes "file_holds fs ''video_generate/video_generate_pipeline.py'' ''byteplussdkarkruntime''"
  shows "patch_video_pipeline fs =
     \<lparr>printed = [''  [OK] video_generate/video_generate_pipeline.py already patched''],
      fs_left = fs, result = Returned True\<rparr>"
  unfolding patch_video_pipeline_def default_marker_def
  by (subst patch_file_marked [OF assms]) (simp_all add: CR_def LF_def)

lemma patch_call_gemini_marked:
  assumes "file_holds fs ''video_generate/call_gemini.py'' ''get_ark_base_url''"
  shows "patch_call_gemini fs =
     \<lparr>printed = [''  [OK] video_generate/call_gemini.py already patched''], fs_left = fs,
      result = Returned True\<rparr>"
  unfolding patch_call_gemini_def
  by (subst patch_file_marked [OF assms]) (simp_all add: CR_def LF_def)

lemma patch_lip_sync_read_marked:
  assumes "read_text fs (path_join REPO_DIR ''generate_lip_video/gen_lip_sycn_video_jimeng.py'')
             = Inr content"
    and "contains content ''config.HUOSHAN_ACCESS_KEY''"
  shows "patch_lip_sync fs =
     \<lparr>printed = [''  [OK] generate_lip_video/gen_lip_sycn_video_jimeng.py already patched''],
      fs_left = fs, result = Returned True\<rparr>"
proof -
  from read_text_file [OF assms(1)]
  have "path_exists fs (path_join REPO_DIR ''generate_lip_video/gen_lip_sycn_video_jimeng.py'')"
    by (simp add: path_exists_def)
  with assms show ?thesis by (simp add: patch_lip_sync_def Let_def)
qed

lemma patch_lip_sync_marked:
  assumes "file_holds fs ''generate_lip_video/gen_lip_sycn_video_jimeng.py''
             ''config.HUOSHAN_ACCESS_KEY''"
  shows "patch_lip_sync fs =
     \<lparr>printed = [''  [OK] generate_lip_video/gen_lip_sycn_video_jimeng.py already patched''],
      fs_left = fs, result = Returned True\<rparr>"
proof -
  have "\<exists>content. read_text fs (path_join REPO_DIR ''generate_lip_video/gen_lip_sycn_video_jimeng.py'')
             = Inr content \<and> contains content ''config.HUOSHAN_ACCESS_KEY''"
    using held_read [OF assms] by (simp add: CR_def LF_def)
  then show ?thesis using patch_lip_sync_read_marked by blast
qed

lemma main_marked:
  assumes "path_exists fs REPO_DIR"
    and "file_holds fs ''config.py'' ''ARK_PROVIDER''"
    and "file_holds fs ''picture_generate/picture.py'' ''byteplussdkarkruntime''"
    and "file_holds fs ''video_generate/video_generate_pipeline.py'' ''byteplussdkarkruntime''"
    and "file_holds fs ''video_generate/call_gemini.py'' ''get_ark_base_url''"
    and "file_holds fs ''generate_lip_video/gen_lip_sycn_video_jimeng.py''
             ''config.HUOSHAN_ACCESS_KEY''"
  shows "main fs =
     \<lparr>printed = [''Applying BytePlus patches to AutoMV repo...'',
                 ''  [OK] config.py already patched'',
                 ''  [OK] picture_generate/picture.py already patched'',
                 ''  [OK] video_generate/video_generate_pipeline.py already patched'',
                 ''  [OK] video_generate/call_gemini.py already patched'',
                 ''  [OK] generate_lip_video/gen_lip_sycn_video_jimeng.py already patched'',
                 ''Done! BytePlus support patched successfully.''],
      fs_left = fs, result = Returned ()\<rparr>"
  using assms(1)
  by (simp add: main_def Let_def and_then_def say_def
      patch_config_marked [OF assms(2)] patch_picture_marked [OF assms(3)]
      patch_video_pipeline_marked [OF assms(4)] patch_call_gemini_marked [OF assms(5)]
      patch_lip_sync_marked [OF assms(6)])

text \<open>
  A first run of \<open>patch_file\<close> that does not read its marker and returns: when the
  replacements put the string \<open>m\<close> into the content, the file is written and the text
  read from it afterwards holds \<open>m\<close>.
\<close>

lemma patch_file_first_run:
  assumes rd: "read_text fs (path_join REPO_DIR fp) = Inr content"
    and nm: "\<not> (marker \<noteq> [] \<and> contains content marker)"
    and ins: "contains (fst (apply_replacements fp reps content)) m"
    and nc: "\<not> contains content m"
    and plain: "m \<noteq> []" "CR \<notin> set m" "LF \<notin> set m"
    and ok: "result (patch_file fp reps marker fs) = Returned True"
  shows "\<exists>c'. read_text (fs_left (patch_file fp reps marker fs)) (path_join REPO_DIR fp) = Inr c' \<and>
              contains c' m"
proof -
  let ?p = "path_join REPO_DIR fp"
  let ?t = "fst (apply_replacements fp reps content)"
  from read_text_file [OF rd] have ex: "path_exists fs ?p" by (simp add: path_exists_def)
  from ins nc have ne: "?t \<noteq> content" by auto
  show ?thesis
  proof (cases "write_text ?p ?t fs")
    case (Inl e)
    with ex rd nm ne have "result (patch_file fp reps marker fs) = Raised e"
      by (auto simp: patch_file_def Let_def)
    with ok show ?thesis by simp
  next
    case (Inr fs')
    with ex rd nm ne have "fs_left (patch_file fp reps marker fs) = fs'"
      by (auto simp: patch_file_def Let_def)
    moreover from read_after_write(1) [OF rd Inr]
    have "read_text fs' ?p = Inr (universal_newlines ?t)" .
    moreover have "contains (universal_newlines ?t) m"
      using contains_universal_newlines [OF ins plain] .
    ultimately show ?thesis by simp
  qed
qed

lemma patch_file_twice:
  assumes held: "file_holds fs fp (fst (hd reps))"
    and anchor: "fst (hd reps) \<noteq> []" "CR \<notin> set (fst (hd reps))" "LF \<notin> set (fst (hd reps))"
    and reps: "reps \<noteq> []" "contains (snd (hd reps)) marker"
         "list_all (\<lambda>r. \<not> clash (fst r) marker) (tl reps)"
    and plain: "marker \<noteq> []" "CR \<notin> set marker" "LF \<notin> set marker"
    and ok: "result (patch_file fp reps marker fs) = Returned True"
  shows "patch_file fp reps marker (fs_left (patch_file fp reps marker fs)) =
     \<lparr>printed = [''  [OK] '' @ fp @ '' already patched''],
      fs_left = fs_left (patch_file fp reps marker fs), result = Returned True\<rparr>"
proof -
  from held_read [OF held anchor] obtain content where
    rd: "read_text fs (path_join REPO_DIR fp) = Inr content"
    and a1: "contains content (fst (hd reps))" by blast
  show ?thesis
  proof (cases "contains content marker")
    case True
    from patch_file_read_marked [OF rd True plain(1)] show ?thesis by simp
  next
    case False
    have ins: "contains (fst (apply_replacements fp reps content)) marker"
      using apply_replacements_inserts [OF reps(1) a1 reps(2,3)] .
    from False have nm: "\<not> (marker \<noteq> [] \<and> contains content marker)" by simp
    from patch_file_first_run [OF rd nm ins False plain ok] obtain c' where
      "read_text (fs_left (patch_file fp reps marker fs)) (path_join REPO_DIR fp) = Inr c'"
      and "contains c' marker" by blast
    from patch_file_read_marked [OF this plain(1)] show ?thesis .
  qed
qed

lemma picture_facts:
  "picture_replacements \<noteq> []"
  "fst (hd picture_replacements) = ''from volcenginesdkarkruntime import Ark''"
  "contains (snd (hd picture_replacements)) default_marker"
  "list_all (\<lambda>r. \<not> clash (fst r) default_marker) (tl picture_replacements)"
  by code_simp+

lemma video_pipeline_facts:
  "video_pipeline_replacements \<noteq> []"
  "fst (hd video_pipeline_replacements) = ''from volcenginesdkarkruntime import Ark''"
  "contains (snd (hd video_pipeline_replacements)) default_marker"
  "list_all (\<lambda>r. \<not> clash (fst r) default_marker) (tl video_pipeline_replacements)"
  by code_simp+

lemma call_gemini_facts:
  "call_gemini_replacements \<noteq> []"
  "fst (hd call_gemini_replacements) = ''base_url=\"https://ark.cn-beijing.volces.com/api/v3\"''"
  "contains (snd (hd call_gemini_replacements)) ''get_ark_base_url''"
  "list_all (\<lambda>r. \<not> clash (fst r) ''get_ark_base_url'') (tl call_gemini_replacements)"
  by code_simp+

lemma config_facts:
  "config_replacements \<noteq> []"
  "fst (hd config_replacements) = ''    music_name = \"1\"''"
  "contains (snd (hd config_replacements)) ''ARK_PROVIDER''"
  "list_all (\<lambda>r. \<not> clash (fst r) ''ARK_PROVIDER'') (tl config_replacements)"
  by code_simp+

lemma lip_sync_facts:
  "contains lip_sync_replacement ''config.HUOSHAN_ACCESS_KEY''"
  by code_simp

lemma patch_picture_twice:
  assumes "file_holds fs ''picture_generate/picture.py'' ''from volcenginesdkarkruntime import Ark''"
    and "result (patch_picture fs) = Returned True"
  shows "patch_picture (fs_left (patch_picture fs)) =
     \<lparr>printed = [''  [OK] picture_generate/picture.py already patched''],
      fs_left = fs_left (patch_picture fs), result = Returned True\<rparr>"
proof -
  have h: "file_holds fs ''picture_generate/picture.py'' (fst (hd picture_replacements))"
    using assms(1) by (simp only: picture_facts(2))
  have a: "fst (hd picture_replacements) \<noteq> []" "CR \<notin> set (fst (hd picture_replacements))"
    "LF \<notin> set (fst (hd picture_replacements))"
    by (simp_all add: picture_facts(2) CR_def LF_def)
  have p: "default_marker \<noteq> []" "CR \<notin> set default_marker" "LF \<notin> set default_marker"
    by (simp_all add: default_marker_def CR_def LF_def)
  from patch_file_twice [OF h a picture_facts(1,3,4) p assms(2) [unfolded patch_picture_def]]
  show ?thesis by (simp add: patch_picture_def)
qed

lemma patch_video_pipeline_twice:
  assumes "file_holds fs ''video_generate/video_generate_pipeline.py''
             ''from volcenginesdkarkruntime import Ark''"
    and "result (patch_video_pipeline fs) = Returned True"
  shows "patch_video_pipeline (fs_left (patch_video_pipeline fs)) =
     \<lparr>printed = [''  [OK] video_generate/video_generate_pipeline.py already patched''],
      fs_left = fs_left (patch_video_pipeline fs), result = Returned True\<rparr>"
proof -
  have h: "file_holds fs ''video_generate/video_generate_pipeline.py''
             (fst (hd video_pipeline_replacements))"
    using assms(1) by (simp only: video_pipeline_facts(2))
  have a: "fst (hd video_pipeline_replacements) \<noteq> []"
    "CR \<notin> set (fst (hd video_pipeline_replacements))"
    "LF \<notin> set (fst (hd video_pipeline_replacements))"
    by (simp_all add: video_pipeline_facts(2) CR_def LF_def)
  have p: "default_marker \<noteq> []" "CR \<notin> set default_marker" "LF \<notin> set default_marker"
    by (simp_all add: default_marker_def CR_def LF_def)
  from patch_file_twice [OF h a video_pipeline_facts(1,3,4) p
      assms(2) [unfolded patch_video_pipeline_def]]
  show ?thesis by (simp add: patch_video_pipeline_def)
qed

lemma patch_call_gemini_twice:
  assumes "file_holds fs ''video_generate/call_gemini.py''
             ''base_url=\"https://ark.cn-beijing.volces.com/api/v3\"''"
    and "result (patch_call_gemini fs) = Returned True"
  shows "patch_call_gemini (fs_left (patch_call_gemini fs)) =
     \<lparr>printed = [''  [OK] video_generate/call_gemini.py already patched''],
      fs_left = fs_left (patch_call_gemini fs), result = Returned True\<rparr>"
proof -
  have h: "file_holds fs ''video_generate/call_gemini.py'' (fst (hd call_gemini_replacements))"
    using assms(1) by (simp only: call_gemini_facts(2))
  have a: "fst (hd call_gemini_replacements) \<noteq> []"
    "CR \<notin> set (fst (hd call_gemini_replacements))"
    "LF \<notin> set (fst (hd call_gemini_replacements))"
    by (simp_all add: call_gemini_facts(2) CR_def LF_def)
  have p: "''get_ark_base_url'' \<noteq> []" "CR \<notin> set ''get_ark_base_url''"
    "LF \<notin> set ''get_ark_base_url''"
    by (simp_all add: CR_def LF_def)
  from patch_file_twice [OF h a call_gemini_facts(1,3,4) p
      assms(2) [unfolded patch_call_gemini_def]]
  show ?thesis by (simp add: patch_call_gemini_def)
qed

lemma patch_config_twice:
  assumes "file_holds fs ''config.py'' ''    music_name = \"1\"''"
    and ok: "result (patch_config fs) = Returned True"
  shows "patch_config (fs_left (patch_config fs)) =
     \<lparr>printed = [''  [OK] config.py already patched''],
      fs_left = fs_left (patch_config fs), result = Returned True\<rparr>"
proof -
  have "''    music_name = \"1\"'' \<noteq> []" "CR \<notin> set ''    music_name = \"1\"''"
    "LF \<notin> set ''    music_name = \"1\"''"
    by (simp_all add: CR_def LF_def)
  from held_read [OF assms(1) this] obtain content where
    rd: "read_text fs (path_join REPO_DIR ''config.py'') = Inr content"
    and a1: "contains content (fst (hd config_replacements))"
    by (auto simp only: config_facts(2))
  show ?thesis
  proof (cases "contains content ''ARK_PROVIDER''")
    case True
    from patch_config_read_marked [OF rd True] show ?thesis by simp
  next
    case False
    with rd have pc: "patch_config fs = patch_file ''config.py'' config_replacements default_marker fs"
      by (simp add: patch_config_def Let_def)
    show ?thesis
    proof (cases "contains content default_marker")
      case True
      have "default_marker \<noteq> []" by (simp add: default_marker_def)
      from patch_file_read_marked [OF rd True this] pc
      have "patch_config fs =
        \<lparr>printed = [''  [OK] config.py already patched''], fs_left = fs, result = Returned True\<rparr>"
        by simp
      then show ?thesis by simp
    next
      case nm: False
      have ins: "contains (fst (apply_replacements ''config.py'' config_replacements content))
          ''ARK_PROVIDER''"
        using apply_replacements_inserts [OF config_facts(1) a1 config_facts(3,4)] .
      have plain: "''ARK_PROVIDER'' \<noteq> []" "CR \<notin> set ''ARK_PROVIDER''" "LF \<notin> set ''ARK_PROVIDER''"
        by (simp_all add: CR_def LF_def)
      from nm have nm': "\<not> (default_marker \<noteq> [] \<and> contains content default_marker)" by simp
      from patch_file_first_run [OF rd nm' ins False plain ok [unfolded pc]] obtain c' where
        "read_text (fs_left (patch_config fs)) (path_join REPO_DIR ''config.py'') = Inr c'"
        and "contains c' ''ARK_PROVIDER''"
        using pc by auto
      from patch_config_read_marked [OF this] show ?thesis .
    qed
  qed
qed

lemma patch_lip_sync_twice:
  assumes ok: "result (patch_lip_sync fs) = Returned True"
  shows "patch_lip_sync (fs_left (patch_lip_sync fs)) =
     \<lparr>printed = [''  [OK] generate_lip_video/gen_lip_sycn_video_jimeng.py already patched''],
      fs_left = fs_left (patch_lip_sync fs), result = Returned True\<rparr>"
proof -
  let ?fp = "''generate_lip_video/gen_lip_sycn_video_jimeng.py''"
  let ?p = "path_join REPO_DIR ?fp"
  have ex: "path_exists fs ?p"
    using ok by (auto simp: patch_lip_sync_def Let_def split: if_splits)
  obtain content where rd: "read_text fs ?p = Inr content"
    using ok ex by (cases "read_text fs ?p") (auto simp: patch_lip_sync_def Let_def)
  show ?thesis
  proof (cases "contains content ''config.HUOSHAN_ACCESS_KEY''")
    case True
    from patch_lip_sync_read_marked [OF rd True] show ?thesis by simp
  next
    case False
    let ?t = "re_sub match_set_ak_sk lip_sync_replacement content"
    have ne: "?t \<noteq> content"
      using ok ex rd False by (auto simp: patch_lip_sync_def Let_def split: if_splits)
    obtain fs' where wr: "write_text ?p ?t fs = Inr fs'"
      using ok ex rd False ne
      by (cases "write_text ?p ?t fs") (auto simp: patch_lip_sync_def Let_def)
    with ex rd False ne have left: "fs_left (patch_lip_sync fs) = fs'"
      by (simp add: patch_lip_sync_def Let_def)
    from re_sub_changed [OF ne] obtain a b where "?t = a @ lip_sync_replacement @ b" by blast
    then have "contains ?t ''config.HUOSHAN_ACCESS_KEY''"
      using contains_mid [OF lip_sync_facts] by simp
    then have "contains (universal_newlines ?t) ''config.HUOSHAN_ACCESS_KEY''"
      by (rule contains_universal_newlines) (simp_all add: CR_def LF_def)
    with read_after_write(1) [OF rd wr] left
    show ?thesis using patch_lip_sync_read_marked by simp
  qed
qed

text \<open>
  C3, as amended: when the target file of a patch step holds the step's marker (and
  may be read), the step prints \<open>already patched\<close>, returns \<open>True\<close> and leaves the
  file system as it is: nothing is written. This holds for each of the five steps, and
  for the whole batch when the repository is there and all five files hold their
  markers. A second run of a step is this no-op behind a first run that returned
  \<open>True\<close>, provided the file held the text that the step's first replacement looks
  for (the replacement that brings the marker in); for the lip-sync step, behind every
  first run that returned \<open>True\<close>.
\<close>

theorem already_patched_is_noop:
  "(file_holds fs ''config.py'' ''ARK_PROVIDER'' \<longrightarrow>
      patch_config fs =
        \<lparr>printed = [''  [OK] config.py already patched''], fs_left = fs, result = Returned True\<rparr>) \<and>
   (file_holds fs ''picture_generate/picture.py'' ''byteplussdkarkruntime'' \<longrightarrow>
      patch_picture fs =
        \<lparr>printed = [''  [OK] picture_generate/picture.py already patched''], fs_left = fs,
         result = Returned True\<rparr>) \<and>
   (file_holds fs ''video_generate/video_generate_pipeline.py'' ''byteplussdkarkruntime'' \<longrightarrow>
      patch_video_pipeline fs =
        \<lparr>printed = [''  [OK] video_generate/video_generate_pipeline.py already patched''],
         fs_left = fs, result = Returned True\<rparr>) \<and>
   (file_holds fs ''video_generate/call_gemini.py'' ''get_ark_base_url'' \<longrightarrow>
      patch_call_gemini fs =
        \<lparr>printed = [''  [OK] video_generate/call_gemini.py already patched''], fs_left = fs,
         result = Returned True\<rparr>) \<and>
   (file_holds fs ''generate_lip_video/gen_lip_sycn_video_jimeng.py''
        ''config.HUOSHAN_ACCESS_KEY'' \<longrightarrow>
      patch_lip_sync fs =
        \<lparr>printed = [''  [OK] generate_lip_video/gen_lip_sycn_video_jimeng.py already patched''],
         fs_left = fs, result = Returned True\<rparr>) \<and>
   (path_exists fs REPO_DIR \<and>
    file_holds fs ''config.py'' ''ARK_PROVIDER'' \<and>
    file_holds fs ''picture_generate/picture.py'' ''byteplussdkarkruntime'' \<and>
    file_holds fs ''video_generate/video_generate_pipeline.py'' ''byteplussdkarkruntime'' \<and>
    file_holds fs ''video_generate/call_gemini.py'' ''get_ark_base_url'' \<and>
    file_holds fs ''generate_lip_video/gen_lip_sycn_video_jimeng.py''
        ''config.HUOSHAN_ACCESS_KEY'' \<longrightarrow>
      main fs =
        \<lparr>printed = [''Applying BytePlus patches to AutoMV repo...'',
                    ''  [OK] config.py already patched'',
                    ''  [OK] picture_generate/picture.py already patched'',
                    ''  [OK] video_generate/video_generate_pipeline.py already patched'',
                    ''  [OK] video_generate/call_gemini.py already patched'',
                    ''  [OK] generate_lip_video/gen_lip_sycn_video_jimeng.py already patched'',
                    ''Done! BytePlus support patched successfully.''],
         fs_left = fs, result = Returned ()\<rparr>) \<and>
   (file_holds fs ''config.py'' ''    music_name = \"1\"'' \<and>
    result (patch_config fs) = Returned True \<longrightarrow>
      patch_config (fs_left (patch_config fs)) =
        \<lparr>printed = [''  [OK] config.py already patched''],
         fs_left = fs_left (patch_config fs), result = Returned True\<rparr>) \<and>
   (file_holds fs ''picture_generate/picture.py'' ''from volcenginesdkarkruntime import Ark'' \<and>
    result (patch_picture fs) = Returned True \<longrightarrow>
      patch_picture (fs_left (patch_picture fs)) =
        \<lparr>printed = [''  [OK] picture_generate/picture.py already patched''],
         fs_left = fs_left (patch_picture fs), result = Returned True\<rparr>) \<and>
   (file_holds fs ''video_generate/video_generate_pipeline.py''
      ''from volcenginesdkarkruntime import Ark'' \<and>
    result (patch_video_pipeline fs) = Returned True \<longrightarrow>
      patch_video_pipeline (fs_left (patch_video_pipeline fs)) =
        \<lparr>printed = [''  [OK] video_generate/video_generate_pipeline.py already patched''],
         fs_left = fs_left (patch_video_pipeline fs), result = Returned True\<rparr>) \<and>
   (file_holds fs ''video_generate/call_gemini.py''
      ''base_url=\"https://ark.cn-beijing.volces.com/api/v3\"'' \<and>
    result (patch_call_gemini fs) = Returned True \<longrightarrow>
      patch_call_gemini (fs_left (patch_call_gemini fs)) =
        \<lparr>printed = [''  [OK] video_generate/call_gemini.py already patched''],
         fs_left = fs_left (patch_call_gemini fs), result = Returned True\<rparr>) \<and>
   (result (patch_lip_sync fs) = Returned True \<longrightarrow>
      patch_lip_sync (fs_left (patch_lip_sync fs)) =
        \<lparr>printed = [''  [OK] generate_lip_video/gen_lip_sycn_video_jimeng.py already patched''],
         fs_left = fs_left (patch_lip_sync fs), result = Returned True\<rparr>)"
  using patch_config_marked [of fs] patch_picture_marked [of fs] patch_video_pipeline_marked [of fs]
    patch_call_gemini_marked [of fs] patch_lip_sync_marked [of fs] main_marked [of fs]
    patch_config_twice [of fs] patch_picture_twice [of fs] patch_video_pipeline_twice [of fs]
    patch_call_gemini_twice [of fs] patch_lip_sync_twice [of fs]
  by blast

text \<open>
  A first run patches \<open>picture.py\<close>, which held the import line, and leaves the
  marker; the second run on what the first left is the no-op. The batch on a
  repository that holds all five markers is one too.
\<close>

theorem already_patched_is_noop_witness:
  "file_holds small_pristine_repo ''picture_generate/picture.py''
     ''from volcenginesdkarkruntime import Ark'' \<and>
   result (patch_picture small_pristine_repo) = Returned True \<and>
   file_holds (fs_left (patch_picture small_pristine_repo)) ''picture_generate/picture.py''
     ''byteplussdkarkruntime'' \<and>
   fs_left (patch_picture small_pristine_repo) \<noteq> small_pristine_repo \<and>
   patch_picture (fs_left (patch_picture small_pristine_repo)) =
     \<lparr>printed = [''  [OK] picture_generate/picture.py already patched''],
      fs_left = fs_left (patch_picture small_pristine_repo), result = Returned True\<rparr> \<and>
   path_exists marked_repo REPO_DIR \<and>
   file_holds marked_repo ''config.py'' ''ARK_PROVIDER'' \<and>
   file_holds marked_repo ''picture_generate/picture.py'' ''byteplussdkarkruntime'' \<and>
   file_holds marked_repo ''video_generate/video_generate_pipeline.py'' ''byteplussdkarkruntime'' \<and>
   file_holds marked_repo ''video_generate/call_gemini.py'' ''get_ark_base_url'' \<and>
   file_holds marked_repo ''generate_lip_video/gen_lip_sycn_video_jimeng.py''
     ''config.HUOSHAN_ACCESS_KEY'' \<and>
   fs_left (main marked_repo) = marked_repo \<and> result (main marked_repo) = Returned ()"
proof -
  have anchor: "file_holds small_pristine_repo ''picture_generate/picture.py''
     ''from volcenginesdkarkruntime import Ark''"
    by code_simp
  have ok: "result (patch_picture small_pristine_repo) = Returned True"
    by code_simp
  have first: "file_holds (fs_left (patch_picture small_pristine_repo))
      ''picture_generate/picture.py'' ''byteplussdkarkruntime''"
    by code_simp
  have changed: "fs_left (patch_picture small_pristine_repo) \<noteq> small_pristine_repo"
    by code_simp
  have m0: "path_exists marked_repo REPO_DIR" by code_simp
  have m1: "file_holds marked_repo ''config.py'' ''ARK_PROVIDER''" by code_simp
  have m2: "file_holds marked_repo ''picture_generate/picture.py'' ''byteplussdkarkruntime''"
    by code_simp
  have m3: "file_holds marked_repo ''video_generate/video_generate_pipeline.py''
      ''byteplussdkarkruntime''"
    by code_simp
  have m4: "file_holds marked_repo ''video_generate/call_gemini.py'' ''get_ark_base_url''"
    by code_simp
  have m5: "file_holds marked_repo ''generate_lip_video/gen_lip_sycn_video_jimeng.py''
      ''config.HUOSHAN_ACCESS_KEY''"
    by code_simp
  have second: "patch_picture (fs_left (patch_picture small_pristine_repo)) =
     \<lparr>printed = [''  [OK] picture_generate/picture.py already patched''],
      fs_left = fs_left (patch_picture small_pristine_repo), result = Returned True\<rparr>"
    using already_patched_is_noop [of small_pristine_repo] anchor ok
    by blast
  have batch: "main marked_repo =
        \<lparr>printed = [''Applying BytePlus patches to AutoMV repo...'',
                    ''  [OK] config.py already patched'',
                    ''  [OK] picture_generate/picture.py already patched'',
                    ''  [OK] video_generate/video_generate_pipeline.py already patched'',
                    ''  [OK] video_generate/call_gemini.py already patched'',
                    ''  [OK] generate_lip_video/gen_lip_sycn_video_jimeng.py already patched'',
                    ''Done! BytePlus support patched successfully.''],
         fs_left = marked_repo, result = Returned ()\<rparr>"
    using already_patched_is_noop [of marked_repo] m0 m1 m2 m3 m4 m5 by blast
  have "fs_left (main marked_repo) = marked_repo" "result (main marked_repo) = Returned ()"
    by (simp_all add: batch)
  with anchor ok first changed second m0 m1 m2 m3 m4 m5 show ?thesis by blast
qed

text \<open>
  C3 as stated fails on a \<open>picture.py\<close> that names the image model twice and does
  not import the SDK. The first run replaces the first of the two model names, prints
  \<open>[PATCHED]\<close> and returns \<open>True\<close>, and the file it leaves does not hold the
  marker. The second run therefore does not report \<open>already patched\<close>: it replaces
  the other model name and writes the file again.
\<close>

theorem second_run_patches_again:
  "result (patch_picture two_models_repo) = Returned True \<and>
   last (printed (patch_picture two_models_repo)) = ''  [PATCHED] picture_generate/picture.py'' \<and>
   raw_content (fs_left (patch_picture two_models_repo))
       (path_join REPO_DIR ''picture_generate/picture.py'') =
     Some (''model=Config.get_model_name(Config.MODEL_SEEDREAM),\<newline>'' @
           ''model=\"doubao-seedream-4-0-250828\",\<newline>'') \<and>
   \<not> file_holds (fs_left (patch_picture two_models_repo)) ''picture_generate/picture.py''
       ''byteplussdkarkruntime'' \<and>
   result (patch_picture (fs_left (patch_picture two_models_repo))) = Returned True \<and>
   last (printed (patch_picture (fs_left (patch_picture two_models_repo)))) =
     ''  [PATCHED] picture_generate/picture.py'' \<and>
   raw_content (fs_left (patch_picture (fs_left (patch_picture two_models_repo))))
       (path_join REPO_DIR ''picture_generate/picture.py'') =
     Some (''model=Config.get_model_name(Config.MODEL_SEEDREAM),\<newline>'' @
           ''model=Config.get_model_name(Config.MODEL_SEEDREAM),\<newline>'') \<and>
   fs_left (patch_picture (fs_left (patch_picture two_models_repo))) \<noteq>
     fs_left (patch_picture two_models_repo)"
  by code_simp

text \<open>
  C4 fails on the code for \<open>config.py\<close>: in a repository without the five target files,
  \<open>patch_config\<close> raises \<open>FileNotFoundError\<close> where the other four steps print
  \<open>[SKIP]\<close> and return \<open>False\<close>, and the batch ends at its first step.
\<close>

theorem missing_config_aborts_batch:
  "patch_config empty_repo =
     \<lparr>printed = [], fs_left = empty_repo, result = Raised FileNotFoundError\<rparr> \<and>
   main empty_repo =
     \<lparr>printed = [''Applying BytePlus patches to AutoMV repo...''], fs_left = empty_repo,
      result = Raised FileNotFoundError\<rparr> \<and>
   patch_picture empty_repo =
     \<lparr>printed = [''  [SKIP] picture_generate/picture.py not found''], fs_left = empty_repo,
      result = Returned False\<rparr> \<and>
   patch_video_pipeline empty_repo =
     \<lparr>printed = [''  [SKIP] video_generate/video_generate_pipeline.py not found''],
      fs_left = empty_repo, result = Returned False\<rparr> \<and>
   patch_call_gemini empty_repo =
     \<lparr>printed = [''  [SKIP] video_generate/call_gemini.py not found''], fs_left = empty_repo,
      result = Returned False\<rparr> \<and>
   patch_lip_sync empty_repo =
     \<lparr>printed = [''  [SKIP] generate_lip_video/gen_lip_sycn_video_jimeng.py not found''],
      fs_left = empty_repo, result = Returned False\<rparr>"
  by code_simp

section \<open>Properties of the settings store\<close>

text \<open>
  C8 fails on the code for a provider that is only white space: \<open>save_env_settings\<close>
  then stores the empty string as the provider, over the one that was stored, where a
  value that is only white space is skipped and leaves its key as it was.
\<close>

theorem blank_provider_stored_empty:
  "snd (save_env_settings h (Some '' '') [Some '' '', Some []]
          (Some [(''ARK_PROVIDER'', Some ''volcengine''), (''GEMINI_API_KEY'', Some ''g'')])) =
     Some [(''ARK_PROVIDER'', Some []), (''GEMINI_API_KEY'', Some ''g'')] \<and>
   snd (save_env_settings h (Some []) [Some '' '', Some []]
          (Some [(''ARK_PROVIDER'', Some ''volcengine''), (''GEMINI_API_KEY'', Some ''g'')])) =
     Some [(''ARK_PROVIDER'', Some ''byteplus''), (''GEMINI_API_KEY'', Some ''g'')] \<and>
   snd (save_env_settings h None [] None) = Some [(''ARK_PROVIDER'', Some ''byteplus'')]"
  by code_simp

section \<open>Properties of the project store\<close>

lemma collect_ok:
  "(\<And>x. x \<in> set xs \<Longrightarrow> \<exists>ys. f x = Inr ys) \<Longrightarrow> \<exists>zs. collect f xs = Inr zs"
proof (induction xs)
  case Nil
  show ?case by simp
next
  case (Cons x xs)
  from Cons.prems obtain ys where "f x = Inr ys" by auto
  moreover from Cons obtain zs where "collect f xs = Inr zs" by auto
  ultimately show ?case by simp
qed

lemma segment_keyframes_ok:
  assumes "path_join pd sd \<notin> set (denied fs)"
  shows "\<exists>ys. segment_keyframes fs pd sd = Inr ys"
  using assms by (simp add: segment_keyframes_def Let_def listdir_def)

lemma load_keyframes_ok:
  assumes "isdir fs (path_join d ''picture'') \<or> \<not> path_exists fs (path_join d ''picture'')"
    and "path_join d ''picture'' \<notin> set (denied fs)"
    and "\<forall>n. path_join (path_join d ''picture'') n \<notin> set (denied fs)"
  shows "\<exists>kf. load_keyframes fs d = Inr kf"
proof (cases "isdir fs (path_join d ''picture'')")
  case True
  obtain names where "listdir fs (path_join d ''picture'') = Inr names"
    using True assms(2) by (simp add: listdir_def)
  moreover obtain kf where "collect (segment_keyframes fs (path_join d ''picture'')) (sort names) = Inr kf"
    using collect_ok [of "sort names" "segment_keyframes fs (path_join d ''picture'')"]
      segment_keyframes_ok assms(3) by blast
  ultimately show ?thesis using True by (simp add: load_keyframes_def Let_def path_exists_def)
next
  case False
  with assms(1) show ?thesis by (simp add: load_keyframes_def Let_def)
qed

text \<open>
  C9, as amended: take a project whose \<open>story.json\<close> can be read and decodes to an
  array of exactly two objects, in each of which \<open>start\<close> and \<open>end\<close>, where
  present, are values that the format \<open>.1f\<close> accepts; the project has no
  \<open>label.json\<close>; and its \<open>picture\<close>, if there, is a directory that may be listed,
  as may the directories in it. Then \<open>load_project\<close> returns, without an exception,
  the storyboard of the two formatted rows with the separator between them and the
  string \<open>No character data found.\<close> for the characters.
\<close>

theorem load_project_two_segments_no_label:
  assumes name: "project_name = Some name" "name \<noteq> []"
    and story: "read_text fs (path_join (path_join RESULT_DIR name) ''story.json'') = Inr content"
    and two: "json_load lib content = Inr (JArr [JObj seg1, JObj seg2])"
    and times: "get_1f lib seg1 ''start'' = Inr start1" "get_1f lib seg1 ''end'' = Inr end1"
               "get_1f lib seg2 ''start'' = Inr start2" "get_1f lib seg2 ''end'' = Inr end2"
    and no_label: "\<not> path_exists fs (path_join (path_join RESULT_DIR name) ''label.json'')"
    and layout: "isdir fs (path_join (path_join RESULT_DIR name) ''picture'') \<or>
                 \<not> path_exists fs (path_join (path_join RESULT_DIR name) ''picture'')"
      "path_join (path_join RESULT_DIR name) ''picture'' \<notin> set (denied fs)"
      "\<forall>n. path_join (path_join (path_join RESULT_DIR name) ''picture'') n \<notin> set (denied fs)"
  shows "\<exists>keyframes.
     load_project lib fs project_name =
       Inr (if path_exists fs (path_join (path_join RESULT_DIR name) (''mv_'' @ name @ ''.mp4''))
            then Some (path_join (path_join RESULT_DIR name) (''mv_'' @ name @ ''.mp4''))
            else None,
            (''**#'' @ get_str lib seg1 ''number'' ''?'' @ ''** ['' @ start1 @ ''s - '' @ end1 @ ''s] '' @
             ''('' @ get_str lib seg1 ''label'' ''unknown'' @ '')\<newline>'' @
             ''Lyrics: '' @ get_str lib seg1 ''text'' ''N/A'' @ ''\<newline>'' @
             ''Scene: '' @ get_str lib seg1 ''story'' ''N/A'' @ ''\<newline>'') @
            ''\<newline>---\<newline>'' @
            (''**#'' @ get_str lib seg2 ''number'' ''?'' @ ''** ['' @ start2 @ ''s - '' @ end2 @ ''s] '' @
             ''('' @ get_str lib seg2 ''label'' ''unknown'' @ '')\<newline>'' @
             ''Lyrics: '' @ get_str lib seg2 ''text'' ''N/A'' @ ''\<newline>'' @
             ''Scene: '' @ get_str lib seg2 ''story'' ''N/A'' @ ''\<newline>''),
            ''No character data found.'',
            keyframes,
            if path_exists fs (path_join (path_join RESULT_DIR name) (''mv_'' @ name @ ''.mp4''))
            then Some (path_join (path_join RESULT_DIR name) (''mv_'' @ name @ ''.mp4''))
            else None)"
proof -
  let ?dir = "path_join RESULT_DIR name"
  have ex: "path_exists fs (path_join ?dir ''story.json'')"
    using story
    by (auto simp: path_exists_def isfile_def read_text_def split: option.splits if_splits)
  have sb: "load_storyboard lib fs ?dir = Inr
            ((''**#'' @ get_str lib seg1 ''number'' ''?'' @ ''** ['' @ start1 @ ''s - '' @ end1 @ ''s] '' @
             ''('' @ get_str lib seg1 ''label'' ''unknown'' @ '')\<newline>'' @
             ''Lyrics: '' @ get_str lib seg1 ''text'' ''N/A'' @ ''\<newline>'' @
             ''Scene: '' @ get_str lib seg1 ''story'' ''N/A'' @ ''\<newline>'') @
            ''\<newline>---\<newline>'' @
            (''**#'' @ get_str lib seg2 ''number'' ''?'' @ ''** ['' @ start2 @ ''s - '' @ end2 @ ''s] '' @
             ''('' @ get_str lib seg2 ''label'' ''unknown'' @ '')\<newline>'' @
             ''Lyrics: '' @ get_str lib seg2 ''text'' ''N/A'' @ ''\<newline>'' @
             ''Scene: '' @ get_str lib seg2 ''story'' ''N/A'' @ ''\<newline>''))"
    using ex story two times
    by (simp add: load_storyboard_def Let_def iterate_def format_segment_def)
  have ch: "load_characters lib fs ?dir = Inr ''No character data found.''"
    using no_label by (simp add: load_characters_def Let_def)
  obtain kf where kf: "load_keyframes fs ?dir = Inr kf"
    using load_keyframes_ok [OF layout] by blast
  have video: "path_join ?dir (''mv_'' @ name @ ''.mp4'') \<noteq> []"
    using path_join_suffix [of ?dir "''mv_'' @ name @ ''.mp4''"] by auto
  show ?thesis
    using name sb ch kf video by (simp add: load_project_def Let_def)
qed

theorem load_project_two_segments_no_label_witness:
  "read_text project_fs (path_join (path_join RESULT_DIR ''demo'') ''story.json'') =
     Inr ''[two segments]'' \<and>
   json_load sample_lib ''[two segments]'' =
     Inr (JArr [JObj [(''number'', JInt 1), (''start'', JInt 0), (''end'', JInt 12),
                      (''label'', JStr ''intro''), (''text'', JStr ''la la''),
                      (''story'', JStr ''A city at dawn.'')],
                JObj [(''number'', JInt 2), (''start'', JInt 12)]]) \<and>
   \<not> path_exists project_fs (path_join (path_join RESULT_DIR ''demo'') ''label.json'') \<and>
   isdir project_fs (path_join (path_join RESULT_DIR ''demo'') ''picture'') \<and>
   denied project_fs = [] \<and>
   (\<exists>keyframes.
      load_project sample_lib project_fs (Some ''demo'') =
        Inr (None,
             ''**#1** [0.0s - 12.0s] (intro)\<newline>Lyrics: la la\<newline>Scene: A city at dawn.\<newline>\<newline>---\<newline>**#2** [12.0s - 0.0s] (unknown)\<newline>Lyrics: N/A\<newline>Scene: N/A\<newline>'',
             ''No character data found.'', keyframes, None))"
proof -
  let ?seg1 = "[(''number'', JInt 1), (''start'', JInt 0), (''end'', JInt 12),
                (''label'', JStr ''intro''), (''text'', JStr ''la la''),
                (''story'', JStr ''A city at dawn.'')] :: (string \<times> int json) list"
  let ?seg2 = "[(''number'', JInt 2), (''start'', JInt 12)] :: (string \<times> int json) list"
  have story: "read_text project_fs (path_join (path_join RESULT_DIR ''demo'') ''story.json'') =
     Inr ''[two segments]''"
    by code_simp
  have two: "json_load sample_lib ''[two segments]'' = Inr (JArr [JObj ?seg1, JObj ?seg2])"
    by code_simp
  have t1: "get_1f sample_lib ?seg1 ''start'' = Inr ''0.0''" by code_simp
  have t2: "get_1f sample_lib ?seg1 ''end'' = Inr ''12.0''" by code_simp
  have t3: "get_1f sample_lib ?seg2 ''start'' = Inr ''12.0''" by code_simp
  have t4: "get_1f sample_lib ?seg2 ''end'' = Inr ''0.0''" by code_simp
  have no_label: "\<not> path_exists project_fs (path_join (path_join RESULT_DIR ''demo'') ''label.json'')"
    by code_simp
  have pic: "isdir project_fs (path_join (path_join RESULT_DIR ''demo'') ''picture'')"
    by code_simp
  have den: "denied project_fs = []" by (simp add: project_fs_def)
  have l1: "isdir project_fs (path_join (path_join RESULT_DIR ''demo'') ''picture'') \<or>
      \<not> path_exists project_fs (path_join (path_join RESULT_DIR ''demo'') ''picture'')"
    using pic by simp
  have l2: "path_join (path_join RESULT_DIR ''demo'') ''picture'' \<notin> set (denied project_fs)"
    by (simp add: den)
  have l3: "\<forall>n. path_join (path_join (path_join RESULT_DIR ''demo'') ''picture'') n
      \<notin> set (denied project_fs)"
    by (simp add: den)
  have video: "\<not> path_exists project_fs
      (path_join (path_join RESULT_DIR ''demo'') (''mv_'' @ ''demo'' @ ''.mp4''))"
    by code_simp
  have strs: "get_str sample_lib ?seg1 ''number'' ''?'' = ''1''"
    "get_str sample_lib ?seg1 ''label'' ''unknown'' = ''intro''"
    "get_str sample_lib ?seg1 ''text'' ''N/A'' = ''la la''"
    "get_str sample_lib ?seg1 ''story'' ''N/A'' = ''A city at dawn.''"
    "get_str sample_lib ?seg2 ''number'' ''?'' = ''2''"
    "get_str sample_lib ?seg2 ''label'' ''unknown'' = ''unknown''"
    "get_str sample_lib ?seg2 ''text'' ''N/A'' = ''N/A''"
    "get_str sample_lib ?seg2 ''story'' ''N/A'' = ''N/A''"
    by code_simp+
  have ne: "''demo'' \<noteq> []" by simp
  from load_project_two_segments_no_label [OF refl ne story two t1 t2 t3 t4 no_label l1 l2 l3]
  have "\<exists>keyframes.
      load_project sample_lib project_fs (Some ''demo'') =
        Inr (None,
             ''**#1** [0.0s - 12.0s] (intro)\<newline>Lyrics: la la\<newline>Scene: A city at dawn.\<newline>\<newline>---\<newline>**#2** [12.0s - 0.0s] (unknown)\<newline>Lyrics: N/A\<newline>Scene: N/A\<newline>'',
             ''No character data found.'', keyframes, None)"
    using video strs by simp
  with story two no_label pic den show ?thesis by blast
qed

text \<open>
  C9 as stated fails on two projects that have a \<open>story.json\<close> with exactly two
  segment objects and no \<open>label.json\<close>. In the first, the \<open>start\<close> of a segment is
  \<open>null\<close>: the format \<open>.1f\<close> raises \<open>TypeError\<close> (line 272). In the second,
  \<open>picture\<close> is a regular file: \<open>os.listdir\<close> raises \<open>NotADirectoryError\<close>
  (line 301). \<open>load_project\<close> catches neither, so the load fails.
\<close>

theorem load_project_raises:
  "read_text project_fs (path_join (path_join RESULT_DIR ''demo'') ''story.json'') =
     Inr ''[two segments]'' \<and>
   json_load null_start_lib ''[two segments]'' =
     Inr (JArr [JObj [(''number'', JInt 1), (''start'', JNull)], JObj [(''number'', JInt 2)]]) \<and>
   \<not> path_exists project_fs (path_join (path_join RESULT_DIR ''demo'') ''label.json'') \<and>
   load_project null_start_lib project_fs (Some ''demo'') = Inl TypeError \<and>
   read_text picture_file_fs (path_join (path_join RESULT_DIR ''demo'') ''story.json'') =
     Inr ''[two segments]'' \<and>
   json_load sample_lib ''[two segments]'' =
     Inr (JArr [JObj [(''number'', JInt 1), (''start'', JInt 0), (''end'', JInt 12),
                      (''label'', JStr ''intro''), (''text'', JStr ''la la''),
                      (''story'', JStr ''A city at dawn.'')],
                JObj [(''number'', JInt 2), (''start'', JInt 12)]]) \<and>
   \<not> path_exists picture_file_fs (path_join (path_join RESULT_DIR ''demo'') ''label.json'') \<and>
   isfile picture_file_fs (path_join (path_join RESULT_DIR ''demo'') ''picture'') \<and>
   load_project sample_lib picture_file_fs (Some ''demo'') = Inl NotADirectoryError"
  by code_simp

end
